theory Spec2Isabelle
  imports Complex_Main
begin

section \<open>Data model\<close>

text \<open>
  The simulation keeps two waiting lines (vehicles and pedestrians).  The source has one
  named tuple per class, \<^verbatim>\<open>Vehiculo(id, tiempo_llegada)\<close> and
  \<^verbatim>\<open>Peaton(id, tiempo_llegada)\<close>, with the same two fields; the class is
  the line the agent stands in.  Times are Python numbers; they are modelled as exact
  reals, so the rounding of floating-point sums is left out.
\<close>

datatype clase = Vehicular | Peatonal

record agente =
  id_agente :: nat
  tiempo_llegada :: real

datatype fase =
    VERDE_VEHICULAR
  | VERDE_VEHICULAR_INICIAL
  | VERDE_VEHICULAR_EXTENSION
  | AMARILLO_VEHICULAR
  | VERDE_PEATONAL
  | AMARILLO_PEATONAL

datatype motivo =
    PRIORIDAD_PEATONAL
  | COLA_VEHICULAR_BAJA
  | MAXIMO_ALCANZADO
  | ALTA_DEMANDA_VEHICULAR
  | COLA_PEATONAL_ALTA
  | ESPERA_EXCESIVA
  | HAY_PEATONES
  | SIN_PEATONES

datatype tipo_decision = EXTENSION | FIN_EXTENSION | SALTAR_FASE_PEATONAL

text \<open>The optional \<^verbatim>\<open>info_adicional\<close> dictionary merged into a phase event.\<close>

datatype info_adicional =
    SinInfo
  | InfoExtension nat real
  | InfoMotivo motivo

text \<open>The \<^verbatim>\<open>valor\<close> dictionary of a decision record, one shape per call site.\<close>

datatype valor =
    ValorPrioridad real real
  | ValorColaBaja nat int
  | ValorMaximo real real
  | ValorExtension nat real nat
  | ValorSaltar nat

record llegada =
  ll_id :: nat
  ll_tiempo :: real
  ll_cola_longitud :: nat
  ll_tiempo_espera_actual :: "nat option"

record servicio =
  sv_id :: nat
  sv_tiempo_llegada :: real
  sv_tiempo_inicio_servicio :: real
  sv_tiempo_fin_servicio :: real
  sv_tiempo_espera :: real
  sv_tiempo_servicio :: real
  sv_ciclo :: nat

record evento =
  ev_tiempo :: real
  ev_fase :: fase
  ev_duracion :: real
  ev_ciclo :: nat
  ev_cola_v :: nat
  ev_cola_p :: nat
  ev_info :: info_adicional

record estado_cola =
  ec_tiempo :: real
  ec_cola_v :: nat
  ec_cola_p :: nat
  ec_fase :: fase

record decision =
  de_tiempo :: real
  de_ciclo :: nat
  de_tipo :: tipo_decision
  de_motivo :: motivo
  de_valor :: valor
  de_cola_v :: nat
  de_cola_p :: nat

text \<open>
  Constructor parameters.  \<^verbatim>\<open>SemaforoFijo\<close> and
  \<^verbatim>\<open>SemaforoAdaptativo\<close> share five of them; each adds its own.
\<close>

record config =
  g_p_fijo :: real
  s_v :: real
  s_p :: real
  amarillo :: real
  warmup_time :: real

record config_fijo = config +
  g_v_fijo :: real

record config_adaptativo = config +
  g_min :: real
  g_max :: real
  t_v :: int
  t_p :: int
  b_extension :: real
  w_max :: real

text \<open>
  The mutable state: the clock \<^verbatim>\<open>env.now\<close>, the items of the two
  \<^verbatim>\<open>simpy.Store\<close> queues, the controller's own fields, the lists of the
  \<^verbatim>\<open>registros\<close> dictionary, and the arrival generator.

  The two generator processes of \<^verbatim>\<open>GeneradorLlegadas\<close> run between the
  controller's suspensions.  Each is represented by its agenda: the instants at which it
  will still put an agent into its queue (the partial sums of its inter-arrival draws
  \<^verbatim>\<open>expovariate(lambda_v)\<close>, \<^verbatim>\<open>expovariate(lambda_p)\<close>); an arrival
  due at the very instant at which the controller resumes is delivered first.
  An agenda is in ascending order.
  The values \<^verbatim>\<open>-log(1 - random())\<close> consumed by the service routines'
  calls of \<^verbatim>\<open>random.expovariate\<close> are the stream \<open>sorteos\<close>,
  read at position \<open>n_sorteos\<close>.

  The horizon of \<^verbatim>\<open>env.run(until=...)\<close> only cuts a run short: what is
  modelled is the controller process itself, observed after any number of cycles.
\<close>

record estado =
  now :: real
  cola_vehiculos :: "agente list"
  cola_peatones :: "agente list"
  fase_actual :: fase
  ciclo_numero :: nat
  eventos_semaforo :: "evento list"
  servicios_vehiculos :: "servicio list"
  servicios_peatones :: "servicio list"
  estado_colas :: "estado_cola list"
  decisiones_adaptativas :: "decision list"
  llegadas_vehiculos :: "llegada list"
  llegadas_peatones :: "llegada list"
  lambda_v :: real
  lambda_p :: real
  vehiculo_id :: nat
  peaton_id :: nat
  gen_warmup_time :: real
  agenda_vehiculos :: "real list"
  agenda_peatones :: "real list"
  sorteos :: "nat \<Rightarrow> real"
  n_sorteos :: nat

datatype error = ValueError | ZeroDivisionError

text \<open>Sequencing of steps that may raise: the first exception ends the process.\<close>

fun ligar :: "error + 'a \<Rightarrow> ('a \<Rightarrow> error + 'b) \<Rightarrow> error + 'b" where
  "ligar (Inl e) f = Inl e"
| "ligar (Inr x) f = f x"

section \<open>Queues, arrivals and the clock\<close>

fun cola :: "clase \<Rightarrow> estado \<Rightarrow> agente list" where
  "cola Vehicular s = cola_vehiculos s"
| "cola Peatonal s = cola_peatones s"

fun poner_cola :: "clase \<Rightarrow> agente list \<Rightarrow> estado \<Rightarrow> estado" where
  "poner_cola Vehicular q s = s\<lparr>cola_vehiculos := q\<rparr>"
| "poner_cola Peatonal q s = s\<lparr>cola_peatones := q\<rparr>"

fun agenda :: "clase \<Rightarrow> estado \<Rightarrow> real list" where
  "agenda Vehicular s = agenda_vehiculos s"
| "agenda Peatonal s = agenda_peatones s"

fun poner_agenda :: "clase \<Rightarrow> real list \<Rightarrow> estado \<Rightarrow> estado" where
  "poner_agenda Vehicular xs s = s\<lparr>agenda_vehiculos := xs\<rparr>"
| "poner_agenda Peatonal xs s = s\<lparr>agenda_peatones := xs\<rparr>"

fun servicios :: "clase \<Rightarrow> estado \<Rightarrow> servicio list" where
  "servicios Vehicular s = servicios_vehiculos s"
| "servicios Peatonal s = servicios_peatones s"

fun tasa :: "clase \<Rightarrow> 'a config_scheme \<Rightarrow> real" where
  "tasa Vehicular cfg = s_v cfg"
| "tasa Peatonal cfg = s_p cfg"

text \<open>
  One pass of the body of \<^verbatim>\<open>generar_vehiculos\<close> /
  \<^verbatim>\<open>generar_peatones\<close> after its timeout, at instant \<open>a\<close>: a new id, the
  agent appended to the queue, and an arrival record unless still warming up.
\<close>

fun llegar :: "clase \<Rightarrow> real \<Rightarrow> estado \<Rightarrow> estado" where
  "llegar Vehicular a s =
     (let i = vehiculo_id s + 1;
          q = cola_vehiculos s @ [\<lparr>id_agente = i, tiempo_llegada = a\<rparr>]
      in s\<lparr>vehiculo_id := i, cola_vehiculos := q,
            llegadas_vehiculos :=
              (if a \<ge> gen_warmup_time s
               then llegadas_vehiculos s @
                      [\<lparr>ll_id = i, ll_tiempo = a, ll_cola_longitud = length q,
                        ll_tiempo_espera_actual = None\<rparr>]
               else llegadas_vehiculos s)\<rparr>)"
| "llegar Peatonal a s =
     (let i = peaton_id s + 1;
          q = cola_peatones s @ [\<lparr>id_agente = i, tiempo_llegada = a\<rparr>]
      in s\<lparr>peaton_id := i, cola_peatones := q,
            llegadas_peatones :=
              (if a \<ge> gen_warmup_time s
               then llegadas_peatones s @
                      [\<lparr>ll_id = i, ll_tiempo = a, ll_cola_longitud = length q,
                        ll_tiempo_espera_actual = Some 0\<rparr>]
               else llegadas_peatones s)\<rparr>)"

text \<open>All arrivals of one class that are due up to instant \<open>t\<close>, in order.\<close>

fun entregar :: "clase \<Rightarrow> real \<Rightarrow> real list \<Rightarrow> estado \<Rightarrow> estado" where
  "entregar c t [] s = poner_agenda c [] s"
| "entregar c t (a # resto) s =
     (if a \<le> t then entregar c t resto (llegar c a s)
      else poner_agenda c (a # resto) s)"

text \<open>
  \<^verbatim>\<open>yield self.env.timeout(d)\<close>: simpy refuses a negative delay with
  \<^verbatim>\<open>ValueError\<close>; otherwise the process sleeps until \<open>now + d\<close>, the
  generators deliver what is due by then, and the clock stands at \<open>now + d\<close> when the
  process resumes.

  Two things are idealised.  The clock is a real number and \<open>now + d\<close> is exact,
  where the code adds IEEE doubles and rounds: the instants of the model are those of the
  code up to rounding, and an equation between a clock reading and a sum of durations is
  a fact of this arithmetic that does not carry over to the code.  And an arrival due at
  exactly the instant at which the process resumes is delivered before the process
  resumes, where simpy runs the events of one instant in the order in which they were
  scheduled.
\<close>

definition timeout :: "real \<Rightarrow> estado \<Rightarrow> error + estado" where
  "timeout d s =
     (if d < 0 then Inl ValueError
      else
        let t = now s + d;
            s1 = entregar Vehicular t (agenda_vehiculos s) s;
            s2 = entregar Peatonal t (agenda_peatones s1) s1
        in Inr (s2\<lparr>now := t\<rparr>))"

text \<open>
  \<^verbatim>\<open>random.expovariate(lambd)\<close> is
  \<^verbatim>\<open>-math.log(1.0 - random()) / lambd\<close>: it divides the next value of the
  stream by the rate and raises \<^verbatim>\<open>ZeroDivisionError\<close> for a zero rate.
\<close>

definition expovariate :: "real \<Rightarrow> estado \<Rightarrow> error + (real \<times> estado)" where
  "expovariate lambd s =
     (if lambd = 0 then Inl ZeroDivisionError
      else Inr (sorteos s (n_sorteos s) / lambd, s\<lparr>n_sorteos := n_sorteos s + 1\<rparr>))"

section \<open>The service routine\<close>

text \<open>
  \<^verbatim>\<open>atender_vehiculos\<close> and \<^verbatim>\<open>atender_peatones\<close> are the same
  text in both controller classes, up to the queue, the rate and the list of service
  records; the class is a parameter here.
\<close>

definition registrar_servicio ::
  "'a config_scheme \<Rightarrow> clase \<Rightarrow> agente \<Rightarrow> real \<Rightarrow> real \<Rightarrow> estado \<Rightarrow> estado" where
  "registrar_servicio cfg c x tiempo_espera tiempo_servicio s =
     (if now s \<ge> warmup_time cfg then
        (let r = \<lparr>sv_id = id_agente x, sv_tiempo_llegada = tiempo_llegada x,
                   sv_tiempo_inicio_servicio = now s - tiempo_servicio,
                   sv_tiempo_fin_servicio = now s,
                   sv_tiempo_espera = tiempo_espera,
                   sv_tiempo_servicio = tiempo_servicio,
                   sv_ciclo = ciclo_numero s\<rparr>
         in case c of
              Vehicular \<Rightarrow> s\<lparr>servicios_vehiculos := servicios_vehiculos s @ [r]\<rparr>
            | Peatonal \<Rightarrow> s\<lparr>servicios_peatones := servicios_peatones s @ [r]\<rparr>)
      else s)"

text \<open>
  How one pass of the \<^verbatim>\<open>while\<close> body ends.  The time left,
  \<^verbatim>\<open>tiempo_fin - self.env.now\<close>, is exact here, so the timeout of an agent that
  does not fit ends on \<open>tiempo_fin\<close>; in doubles the sum of the clock and the rounded
  difference can miss \<open>tiempo_fin\<close> in the last place.
\<close>

datatype 'a paso = Continue 'a | Break 'a

definition atender_paso ::
  "'a config_scheme \<Rightarrow> clase \<Rightarrow> real \<Rightarrow> nat \<Rightarrow> estado \<Rightarrow> error + (nat \<times> estado) paso" where
  "atender_paso cfg c tiempo_fin atendidos s =
     (case cola c s of
        [] \<Rightarrow>
          ligar (timeout (min 1 (tiempo_fin - now s)) s)
            (\<lambda>s'. Inr (Continue (atendidos, s')))
      | x # resto \<Rightarrow>
          (let s1 = poner_cola c resto s;
               tiempo_espera = now s1 - tiempo_llegada x
           in ligar (expovariate (tasa c cfg) s1)
                (\<lambda>(tiempo_servicio, s2).
                   let tiempo_restante = tiempo_fin - now s2 in
                   if tiempo_servicio > tiempo_restante then
                     ligar (timeout tiempo_restante (poner_cola c (cola c s2 @ [x]) s2))
                       (\<lambda>s3. Inr (Break (atendidos, s3)))
                   else
                     ligar (timeout tiempo_servicio s2)
                       (\<lambda>s3. Inr (Continue
                          (atendidos + 1,
                           registrar_servicio cfg c x tiempo_espera tiempo_servicio s3))))))"


subsection \<open>The loop\<close>

text \<open>
  What a service loop can still be given to serve: the agents queued and the arrivals
  still to come.  It bounds the number of services of one call.
\<close>

definition carga :: "clase \<Rightarrow> estado \<Rightarrow> nat" where
  "carga c s = length (cola c s) + length (agenda c s)"

function atender_bucle ::
  "'a config_scheme \<Rightarrow> clase \<Rightarrow> real \<Rightarrow> nat \<Rightarrow> estado \<Rightarrow> error + (nat \<times> estado)" where
  "atender_bucle cfg c tiempo_fin atendidos s =
     (if now s < tiempo_fin then
        (case atender_paso cfg c tiempo_fin atendidos s of
           Inl e \<Rightarrow> Inl e
         | Inr (Break r) \<Rightarrow> Inr r
         | Inr (Continue (atendidos', s')) \<Rightarrow> atender_bucle cfg c tiempo_fin atendidos' s')
      else Inr (atendidos, s))"
  by pat_completeness auto


text \<open>
  \<^verbatim>\<open>atender_vehiculos(duracion)\<close> / \<^verbatim>\<open>atender_peatones(duracion)\<close>:
  the end of the phase is fixed on entry, the loop runs until the clock reaches it, and the
  number of agents served is returned.
\<close>

definition atender ::
  "'a config_scheme \<Rightarrow> clase \<Rightarrow> real \<Rightarrow> estado \<Rightarrow> error + (nat \<times> estado)" where
  "atender cfg c duracion s =
     (let tiempo_inicio = now s;
          tiempo_fin = tiempo_inicio + duracion
      in atender_bucle cfg c tiempo_fin 0 s)"

definition atender_vehiculos ::
  "'a config_scheme \<Rightarrow> real \<Rightarrow> estado \<Rightarrow> error + (nat \<times> estado)" where
  "atender_vehiculos cfg duracion s = atender cfg Vehicular duracion s"

definition atender_peatones ::
  "'a config_scheme \<Rightarrow> real \<Rightarrow> estado \<Rightarrow> error + (nat \<times> estado)" where
  "atender_peatones cfg duracion s = atender cfg Peatonal duracion s"

section \<open>Recording\<close>

definition registrar_evento ::
  "'a config_scheme \<Rightarrow> fase \<Rightarrow> real \<Rightarrow> info_adicional \<Rightarrow> estado \<Rightarrow> estado" where
  "registrar_evento cfg f duracion info s =
     (if now s \<ge> warmup_time cfg then
        s\<lparr>eventos_semaforo := eventos_semaforo s @
             [\<lparr>ev_tiempo = now s, ev_fase = f, ev_duracion = duracion,
               ev_ciclo = ciclo_numero s,
               ev_cola_v = length (cola_vehiculos s),
               ev_cola_p = length (cola_peatones s),
               ev_info = info\<rparr>]\<rparr>
      else s)"

definition registrar_estado_cola :: "'a config_scheme \<Rightarrow> estado \<Rightarrow> estado" where
  "registrar_estado_cola cfg s =
     (if now s \<ge> warmup_time cfg then
        s\<lparr>estado_colas := estado_colas s @
             [\<lparr>ec_tiempo = now s,
               ec_cola_v = length (cola_vehiculos s),
               ec_cola_p = length (cola_peatones s),
               ec_fase = fase_actual s\<rparr>]\<rparr>
      else s)"

definition registrar_decision ::
  "'a config_scheme \<Rightarrow> tipo_decision \<Rightarrow> motivo \<Rightarrow> valor \<Rightarrow> estado \<Rightarrow> estado" where
  "registrar_decision cfg tipo m v s =
     (if now s \<ge> warmup_time cfg then
        s\<lparr>decisiones_adaptativas := decisiones_adaptativas s @
             [\<lparr>de_tiempo = now s, de_ciclo = ciclo_numero s, de_tipo = tipo,
               de_motivo = m, de_valor = v,
               de_cola_v = length (cola_vehiculos s),
               de_cola_p = length (cola_peatones s)\<rparr>]\<rparr>
      else s)"

section \<open>The fixed controller\<close>



section \<open>The adaptive controller\<close>

definition obtener_espera_maxima_peatonal :: "estado \<Rightarrow> real" where
  "obtener_espera_maxima_peatonal s =
     (if length (cola_peatones s) = 0 then 0
      else Max (set (map (\<lambda>p. now s - tiempo_llegada p) (cola_peatones s))))"

text \<open>
  The extension loop of \<^verbatim>\<open>fase_verde_vehicular_adaptativa\<close>.  Nothing in
  the source bounds the number of passes (with a block of length zero the loop spins), so
  the loop is a partial function: \<open>None\<close> means that it does not return.
\<close>

partial_function (option) bucle_extension ::
  "'a config_adaptativo_scheme \<Rightarrow> real \<Rightarrow> nat \<Rightarrow> estado \<Rightarrow> (error + (real \<times> estado)) option" where
  "bucle_extension cfg tiempo_verde_total extensiones s =
     (if tiempo_verde_total < g_max cfg then
        (let cola_actual_v = length (cola_vehiculos s);
             espera_max_p = obtener_espera_maxima_peatonal s
         in
           if espera_max_p > w_max cfg then
             Some (Inr (tiempo_verde_total,
               registrar_decision cfg FIN_EXTENSION PRIORIDAD_PEATONAL
                 (ValorPrioridad espera_max_p (w_max cfg)) s))
           else if int cola_actual_v < t_v cfg then
             Some (Inr (tiempo_verde_total,
               registrar_decision cfg FIN_EXTENSION COLA_VEHICULAR_BAJA
                 (ValorColaBaja cola_actual_v (t_v cfg)) s))
           else if tiempo_verde_total + b_extension cfg > g_max cfg then
             Some (Inr (tiempo_verde_total,
               registrar_decision cfg FIN_EXTENSION MAXIMO_ALCANZADO
                 (ValorMaximo tiempo_verde_total (g_max cfg)) s))
           else
             (let extensiones' = extensiones + 1;
                  tiempo_verde_total' = tiempo_verde_total + b_extension cfg;
                  s1 = registrar_decision cfg EXTENSION ALTA_DEMANDA_VEHICULAR
                         (ValorExtension extensiones' tiempo_verde_total' cola_actual_v) s;
                  s2 = registrar_evento cfg VERDE_VEHICULAR_EXTENSION (b_extension cfg)
                         (InfoExtension extensiones' tiempo_verde_total') s1
              in case atender_vehiculos cfg (b_extension cfg) s2 of
                   Inl e \<Rightarrow> Some (Inl e)
                 | Inr r \<Rightarrow> bucle_extension cfg tiempo_verde_total' extensiones' (snd r)))
      else Some (Inr (tiempo_verde_total, s)))"

definition fase_verde_vehicular_adaptativa ::
  "'a config_adaptativo_scheme \<Rightarrow> estado \<Rightarrow> (error + (real \<times> estado)) option" where
  "fase_verde_vehicular_adaptativa cfg s =
     (let tiempo_verde_total = g_min cfg;
          s1 = registrar_evento cfg VERDE_VEHICULAR_INICIAL (g_min cfg)
                 (InfoExtension 0 (g_min cfg)) s
      in case atender_vehiculos cfg (g_min cfg) s1 of
           Inl e \<Rightarrow> Some (Inl e)
         | Inr r \<Rightarrow> bucle_extension cfg tiempo_verde_total 0 (snd r))"

definition debe_activar_fase_peatonal ::
  "'a config_adaptativo_scheme \<Rightarrow> estado \<Rightarrow> bool \<times> motivo" where
  "debe_activar_fase_peatonal cfg s =
     (let cola_p = length (cola_peatones s);
          espera_max_p = obtener_espera_maxima_peatonal s
      in if int cola_p \<ge> t_p cfg then (True, COLA_PEATONAL_ALTA)
         else if espera_max_p > w_max cfg then (True, ESPERA_EXCESIVA)
         else if cola_p > 0 then (True, HAY_PEATONES)
         else (False, SIN_PEATONES))"

text \<open>
  What follows the vehicle green in one pass of
  \<^verbatim>\<open>SemaforoAdaptativo.controlador\<close>: amber, the activation decision, and
  the pedestrian phase or the record of its omission.
\<close>

definition resto_ciclo_adaptativo ::
  "'a config_adaptativo_scheme \<Rightarrow> estado \<Rightarrow> error + estado" where
  "resto_ciclo_adaptativo cfg s0 =
     (let s1 = s0\<lparr>fase_actual := AMARILLO_VEHICULAR\<rparr>;
          s2 = registrar_evento cfg AMARILLO_VEHICULAR (amarillo cfg) SinInfo s1
      in ligar (timeout (amarillo cfg) s2) (\<lambda>s3.
         let (activar_peatonal, m) = debe_activar_fase_peatonal cfg s3 in
         if activar_peatonal then
           (let s4 = s3\<lparr>fase_actual := VERDE_PEATONAL\<rparr>;
                s5 = registrar_evento cfg VERDE_PEATONAL (g_p_fijo cfg) (InfoMotivo m) s4;
                s6 = registrar_estado_cola cfg s5
            in ligar (atender_peatones cfg (g_p_fijo cfg) s6) (\<lambda>(_, s7).
               let s8 = s7\<lparr>fase_actual := AMARILLO_PEATONAL\<rparr>;
                   s9 = registrar_evento cfg AMARILLO_PEATONAL (amarillo cfg) SinInfo s8
               in ligar (timeout (amarillo cfg) s9) (\<lambda>s10.
               Inr (registrar_estado_cola cfg s10))))
         else
           Inr (registrar_estado_cola cfg
                 (registrar_decision cfg SALTAR_FASE_PEATONAL m
                    (ValorSaltar (length (cola_peatones s3))) s3))))"

definition ciclo_adaptativo ::
  "'a config_adaptativo_scheme \<Rightarrow> estado \<Rightarrow> (error + estado) option" where
  "ciclo_adaptativo cfg s0 =
     (let s1 = s0\<lparr>ciclo_numero := ciclo_numero s0 + 1\<rparr>;
          s2 = s1\<lparr>fase_actual := VERDE_VEHICULAR\<rparr>;
          s3 = registrar_estado_cola cfg s2
      in case fase_verde_vehicular_adaptativa cfg s3 of
           None \<Rightarrow> None
         | Some (Inl e) \<Rightarrow> Some (Inl e)
         | Some (Inr (tiempo_verde_vehicular, s4)) \<Rightarrow> Some (resto_ciclo_adaptativo cfg s4))"

section \<open>Observing a service call\<close>

text \<open>
  \<open>visita cfg c tiempo_fin s s'\<close>: a call of the service routine that enters its
  loop in state \<open>s\<close> with phase end \<open>tiempo_fin\<close> stands in state \<open>s'\<close>
  at the start of the loop or after one of its passes.
\<close>

inductive visita :: "'a config_scheme \<Rightarrow> clase \<Rightarrow> real \<Rightarrow> estado \<Rightarrow> estado \<Rightarrow> bool"
  for cfg :: "'a config_scheme" and c :: clase and tiempo_fin :: real and s :: estado where
  visita_inicio: "visita cfg c tiempo_fin s s"
| visita_continue:
    "visita cfg c tiempo_fin s s1 \<Longrightarrow> now s1 < tiempo_fin \<Longrightarrow>
     atender_paso cfg c tiempo_fin n s1 = Inr (Continue (n', s2)) \<Longrightarrow>
     visita cfg c tiempo_fin s s2"
| visita_break:
    "visita cfg c tiempo_fin s s1 \<Longrightarrow> now s1 < tiempo_fin \<Longrightarrow>
     atender_paso cfg c tiempo_fin n s1 = Inr (Break (n', s2)) \<Longrightarrow>
     visita cfg c tiempo_fin s s2"

section \<open>Reading the records\<close>

text \<open>The phase-change records of the two pedestrian phases.\<close>

definition eventos_peatonales :: "estado \<Rightarrow> evento list" where
  "eventos_peatonales s =
     filter (\<lambda>e. ev_fase e = VERDE_PEATONAL \<or> ev_fase e = AMARILLO_PEATONAL)
       (eventos_semaforo s)"

text \<open>The three lists that only the controller writes.\<close>

definition bitacora :: "estado \<Rightarrow> evento list \<times> estado_cola list \<times> decision list" where
  "bitacora s = (eventos_semaforo s, estado_colas s, decisiones_adaptativas s)"

text \<open>
  Instant and phase of every phase-change record, and instant and phase of every queue
  snapshot, in the order written.
\<close>

definition marcas_eventos :: "estado \<Rightarrow> (real \<times> fase) list" where
  "marcas_eventos s = map (\<lambda>e. (ev_tiempo e, ev_fase e)) (eventos_semaforo s)"

definition marcas_colas :: "estado \<Rightarrow> (real \<times> fase) list" where
  "marcas_colas s = map (\<lambda>e. (ec_tiempo e, ec_fase e)) (estado_colas s)"

text \<open>
  The line of a class: the agents queued, head first, followed by the agents still to
  arrive, in the order and with the ids in which the generator will append them
  (\<^verbatim>\<open>vehiculo_id\<close> / \<^verbatim>\<open>peaton_id\<close> is the last id given out).
  A \<^verbatim>\<open>Store.get\<close> takes the head of the line; an arrival only moves the
  boundary between its two parts.
\<close>

fun contador :: "clase \<Rightarrow> estado \<Rightarrow> nat" where
  "contador Vehicular s = vehiculo_id s"
| "contador Peatonal s = peaton_id s"

fun venideros_de :: "nat \<Rightarrow> real list \<Rightarrow> agente list" where
  "venideros_de i [] = []"
| "venideros_de i (a # resto) =
     \<lparr>id_agente = i + 1, tiempo_llegada = a\<rparr> # venideros_de (i + 1) resto"

definition fila :: "clase \<Rightarrow> estado \<Rightarrow> agente list" where
  "fila c s = cola c s @ venideros_de (contador c s) (agenda c s)"



section \<open>Construction\<close>

text \<open>
  What the drivers build before \<^verbatim>\<open>env.run\<close>: a fresh
  \<^verbatim>\<open>simpy.Environment\<close> (clock at zero), two empty stores and an empty
  \<^verbatim>\<open>registros\<close> dictionary.  The arrival instants and the stream of draws are
  what the seed determines.
\<close>

definition entorno_inicial :: "real list \<Rightarrow> real list \<Rightarrow> (nat \<Rightarrow> real) \<Rightarrow> estado" where
  "entorno_inicial ag_v ag_p draws =
     \<lparr>now = 0, cola_vehiculos = [], cola_peatones = [],
      fase_actual = VERDE_VEHICULAR, ciclo_numero = 0,
      eventos_semaforo = [], servicios_vehiculos = [], servicios_peatones = [],
      estado_colas = [], decisiones_adaptativas = [],
      llegadas_vehiculos = [], llegadas_peatones = [],
      lambda_v = 0, lambda_p = 0, vehiculo_id = 0, peaton_id = 0, gen_warmup_time = 0,
      agenda_vehiculos = ag_v, agenda_peatones = ag_p,
      sorteos = draws, n_sorteos = 0\<rparr>"

text \<open>
  The three \<^verbatim>\<open>__init__\<close> methods.  None of them has a
  \<^verbatim>\<open>raise\<close> or a comparison: each stores its arguments and resets its
  counters and lists.  The result type leaves room for a configuration error.
\<close>

definition GeneradorLlegadas_init :: "real \<Rightarrow> real \<Rightarrow> real \<Rightarrow> estado \<Rightarrow> error + estado" where
  "GeneradorLlegadas_init lam_v lam_p warmup s =
     Inr (s\<lparr>lambda_v := lam_v, lambda_p := lam_p, gen_warmup_time := warmup,
            vehiculo_id := 0, peaton_id := 0,
            llegadas_vehiculos := [], llegadas_peatones := []\<rparr>)"

definition SemaforoFijo_init ::
  "real \<Rightarrow> real \<Rightarrow> real \<Rightarrow> real \<Rightarrow> real \<Rightarrow> real \<Rightarrow> estado \<Rightarrow> error + (config_fijo \<times> estado)" where
  "SemaforoFijo_init g_v g_p sv sp am warmup s =
     Inr (\<lparr>g_p_fijo = g_p, s_v = sv, s_p = sp, amarillo = am, warmup_time = warmup,
           g_v_fijo = g_v\<rparr>,
          s\<lparr>fase_actual := VERDE_VEHICULAR, ciclo_numero := 0,
            eventos_semaforo := [], servicios_vehiculos := [], servicios_peatones := [],
            estado_colas := []\<rparr>)"

definition SemaforoAdaptativo_init ::
  "real \<Rightarrow> real \<Rightarrow> real \<Rightarrow> real \<Rightarrow> real \<Rightarrow> int \<Rightarrow> int \<Rightarrow> real \<Rightarrow> real \<Rightarrow> real \<Rightarrow> real \<Rightarrow>
   estado \<Rightarrow> error + (config_adaptativo \<times> estado)" where
  "SemaforoAdaptativo_init gmin gmax g_p sv sp tv tp b wmax am warmup s =
     Inr (\<lparr>g_p_fijo = g_p, s_v = sv, s_p = sp, amarillo = am, warmup_time = warmup,
           g_min = gmin, g_max = gmax, t_v = tv, t_p = tp, b_extension = b, w_max = wmax\<rparr>,
          s\<lparr>fase_actual := VERDE_VEHICULAR, ciclo_numero := 0,
            eventos_semaforo := [], servicios_vehiculos := [], servicios_peatones := [],
            estado_colas := [], decisiones_adaptativas := []\<rparr>)"

section \<open>Reference configurations\<close>

text \<open>The values of \<^verbatim>\<open>config.py\<close>.\<close>

definition cfg_fijo_defecto :: config_fijo where
  "cfg_fijo_defecto =
     \<lparr>g_p_fijo = 15, s_v = 1 / 2, s_p = 1, amarillo = 3, warmup_time = 300, g_v_fijo = 30\<rparr>"

definition cfg_adaptativo_defecto :: config_adaptativo where
  "cfg_adaptativo_defecto =
     \<lparr>g_p_fijo = 15, s_v = 1 / 2, s_p = 1, amarillo = 3, warmup_time = 300,
      g_min = 20, g_max = 60, t_v = 5, t_p = 3, b_extension = 5, w_max = 90\<rparr>"

definition cfg_adaptativo_sin_warmup :: config_adaptativo where
  "cfg_adaptativo_sin_warmup = cfg_adaptativo_defecto\<lparr>warmup_time := 0\<rparr>"

definition cfg_fijo_sin_warmup :: config_fijo where
  "cfg_fijo_sin_warmup = cfg_fijo_defecto\<lparr>warmup_time := 0\<rparr>"

definition cfg_adaptativo_umbral_cero :: config_adaptativo where
  "cfg_adaptativo_umbral_cero = cfg_adaptativo_sin_warmup\<lparr>t_p := 0\<rparr>"

section \<open>Reference states\<close>

text \<open>
  A state in the middle of a run, at the start of the vehicle green of cycle 1: five
  vehicles are queued, no pedestrian, no arrival is pending, and every service draw is so
  long (\<open>100 / s_v\<close>) that no vehicle fits into a phase, so the queue keeps its length.
\<close>

definition estado_cola_sostenida :: estado where
  "estado_cola_sostenida =
     (entorno_inicial [] [] (\<lambda>k. 100))
       \<lparr>now := 100,
        cola_vehiculos :=
          [\<lparr>id_agente = 1, tiempo_llegada = 90\<rparr>, \<lparr>id_agente = 2, tiempo_llegada = 91\<rparr>,
           \<lparr>id_agente = 3, tiempo_llegada = 92\<rparr>, \<lparr>id_agente = 4, tiempo_llegada = 93\<rparr>,
           \<lparr>id_agente = 5, tiempo_llegada = 94\<rparr>],
        ciclo_numero := 1, vehiculo_id := 5\<rparr>"

text \<open>The same with one pedestrian who has been waiting since instant 0.\<close>

definition estado_peaton_esperando :: estado where
  "estado_peaton_esperando =
     estado_cola_sostenida
       \<lparr>cola_peatones := [\<lparr>id_agente = 1, tiempo_llegada = 0\<rparr>], peaton_id := 1\<rparr>"

text \<open>The same with only two vehicles queued.\<close>

definition estado_cola_baja :: estado where
  "estado_cola_baja =
     estado_cola_sostenida
       \<lparr>cola_vehiculos :=
          [\<lparr>id_agente = 4, tiempo_llegada = 93\<rparr>, \<lparr>id_agente = 5, tiempo_llegada = 94\<rparr>]\<rparr>"

text \<open>
  Two vehicles queued at the start of a vehicle green; the first draw is longer than any
  phase, the others take two seconds at the reference rate.
\<close>

definition estado_dos_vehiculos :: estado where
  "estado_dos_vehiculos =
     estado_cola_sostenida
       \<lparr>cola_vehiculos :=
          [\<lparr>id_agente = 1, tiempo_llegada = 90\<rparr>, \<lparr>id_agente = 2, tiempo_llegada = 91\<rparr>],
        sorteos := (\<lambda>k. if k = 0 then 100 else 1), vehiculo_id := 2\<rparr>"


section \<open>Termination of the service loop\<close>

lemma carga_llegar: "carga c' (llegar c a s) = (if c = c' then Suc (carga c' s) else carga c' s)"
  by (cases c; cases c') (simp_all add: carga_def Let_def)

lemma agenda_llegar [simp]: "agenda c' (llegar c a s) = agenda c' s"
  by (cases c; cases c') (simp_all add: Let_def)

lemma carga_poner_agenda:
  "carga c' (poner_agenda c xs s) = (if c = c' then length (cola c' s) + length xs else carga c' s)"
  by (cases c; cases c') (simp_all add: carga_def)

lemma cola_llegar_length: "length (cola c' (llegar c a s)) = (if c = c' then Suc (length (cola c' s)) else length (cola c' s))"
  by (cases c; cases c') (simp_all add: Let_def)

lemma carga_entregar:
  "carga c' (entregar c t xs s) =
     (if c = c' then length (cola c' s) + length xs else carga c' s)"
  by (induction xs arbitrary: s) (auto simp: carga_poner_agenda carga_llegar cola_llegar_length)

lemma now_llegar [simp]: "now (llegar c a s) = now s"
  by (cases c) (simp_all add: Let_def)

lemma now_poner_agenda [simp]: "now (poner_agenda c xs s) = now s"
  by (cases c) simp_all

lemma now_entregar [simp]: "now (entregar c t xs s) = now s"
  by (induction xs arbitrary: s) auto

lemma timeout_Inr:
  assumes "timeout d s = Inr s'"
  shows "0 \<le> d" and "now s' = now s + d" and "carga c s' = carga c s"
proof -
  show d: "0 \<le> d" using assms by (auto simp: timeout_def split: if_splits)
  define s1 where "s1 = entregar Vehicular (now s + d) (agenda_vehiculos s) s"
  define s2 where "s2 = entregar Peatonal (now s + d) (agenda_peatones s1) s1"
  have s': "s' = s2\<lparr>now := now s + d\<rparr>"
    using assms d by (simp add: timeout_def Let_def s1_def s2_def)
  show "now s' = now s + d" by (simp add: s')
  have "carga c s1 = carga c s"
    by (cases c) (simp_all add: s1_def carga_entregar, simp add: carga_def)
  moreover have "carga c s2 = carga c s1"
    by (cases c) (simp_all add: s2_def carga_entregar, simp add: carga_def)
  moreover have "carga c s' = carga c s2"
    by (cases c) (simp_all add: s' carga_def)
  ultimately show "carga c s' = carga c s" by simp
qed


lemma atender_paso_Continue:
  assumes "now s < fin" and "atender_paso cfg c fin n s = Inr (Continue (n', s'))"
  shows "carga c s' < carga c s \<or>
         (carga c s' = carga c s \<and> nat \<lceil>fin - now s'\<rceil> < nat \<lceil>fin - now s\<rceil>)"
proof (cases "cola c s")
  case Nil
  from assms(2) Nil obtain s1 where t: "timeout (min 1 (fin - now s)) s = Inr s1" and s': "s' = s1"
    by (cases "timeout (min 1 (fin - now s)) s") (auto simp: atender_paso_def)
  have "now s' = now s + min 1 (fin - now s)" using timeout_Inr(2)[OF t] s' by simp
  moreover have "carga c s' = carga c s" using timeout_Inr(3)[OF t] s' by simp
  ultimately show ?thesis using assms(1) by (auto simp: min_def) linarith+
next
  case (Cons x resto)
  define s1 where "s1 = poner_cola c resto s"
  from assms(2) Cons obtain ts s2 where e: "expovariate (tasa c cfg) s1 = Inr (ts, s2)"
    by (cases "expovariate (tasa c cfg) s1") (auto simp: atender_paso_def Let_def s1_def)
  have s2: "s2 = s1\<lparr>n_sorteos := n_sorteos s1 + 1\<rparr>"
    using e by (auto simp: expovariate_def split: if_splits)
  from assms(2) Cons e obtain s3 where t: "timeout ts s2 = Inr s3"
    and s': "s' = registrar_servicio cfg c x (now s1 - tiempo_llegada x) ts s3"
    by (cases "timeout ts s2"; cases "timeout (fin - now s2) (poner_cola c (cola c s2 @ [x]) s2)")
       (auto simp: atender_paso_def Let_def s1_def split: if_splits)
  have "carga c s' = carga c s3"
    by (cases c) (simp_all add: s' carga_def registrar_servicio_def Let_def)
  also have "\<dots> = carga c s2" using timeout_Inr(3)[OF t] .
  also have "\<dots> = carga c s1" by (cases c) (simp_all add: s2 carga_def)
  also have "\<dots> < carga c s" using Cons by (cases c) (simp_all add: s1_def carga_def)
  finally show ?thesis by simp
qed

termination atender_bucle
proof (relation "(\<lambda>(cfg, c, fin, n, s). carga c s) <*mlex*>
                 measure (\<lambda>(cfg, c, fin, n, s). nat \<lceil>fin - now s\<rceil>)")
  show "wf ((\<lambda>(cfg, c, fin, n, s). carga c s) <*mlex*>
            measure (\<lambda>(cfg :: 'a config_scheme, c, fin, n, s). nat \<lceil>fin - now s\<rceil>))"
    by (simp add: wf_mlex)
next
  fix cfg :: "'a config_scheme" and c fin n s r p n' s'
  assume "now s < fin" and "atender_paso cfg c fin n s = Inr r" and "r = Continue p"
    and "(n', s') = p"
  then have "atender_paso cfg c fin n s = Inr (Continue (n', s'))" by simp
  from atender_paso_Continue[OF \<open>now s < fin\<close> this]
  show "((cfg, c, fin, n', s'), (cfg, c, fin, n, s))
        \<in> (\<lambda>(cfg, c, fin, n, s). carga c s) <*mlex*>
           measure (\<lambda>(cfg, c, fin, n, s). nat \<lceil>fin - now s\<rceil>)"
    by (auto simp: mlex_prod_def)
qed

declare atender_bucle.simps [simp del]

section \<open>Evaluation\<close>

text \<open>The equations that run the model on a concrete state.\<close>

lemmas evaluar =
  atender_bucle.simps atender_paso_def atender_def atender_vehiculos_def atender_peatones_def
  timeout_def expovariate_def registrar_servicio_def registrar_evento_def
  registrar_estado_cola_def registrar_decision_def obtener_espera_maxima_peatonal_def
  Let_def

lemmas estados_de_referencia =
  cfg_fijo_defecto_def cfg_fijo_sin_warmup_def cfg_adaptativo_defecto_def cfg_adaptativo_sin_warmup_def
  entorno_inicial_def estado_cola_sostenida_def estado_peaton_esperando_def
  estado_cola_baja_def

section \<open>Auxiliary facts\<close>

subsection \<open>The clock during a service call\<close>

lemma sorteos_llegar [simp]: "sorteos (llegar c a s) = sorteos s"
  by (cases c) (simp_all add: Let_def)

lemma sorteos_poner_agenda [simp]: "sorteos (poner_agenda c xs s) = sorteos s"
  by (cases c) simp_all

lemma sorteos_poner_cola [simp]: "sorteos (poner_cola c q s) = sorteos s"
  by (cases c) simp_all

lemma now_poner_cola [simp]: "now (poner_cola c q s) = now s"
  by (cases c) simp_all

lemma sorteos_entregar [simp]: "sorteos (entregar c t xs s) = sorteos s"
  by (induction xs arbitrary: s) auto

lemma sorteos_timeout: "timeout d s = Inr s' \<Longrightarrow> sorteos s' = sorteos s"
  by (auto simp: timeout_def Let_def split: if_splits)

lemma timeout_ok: "0 \<le> d \<Longrightarrow> \<exists>s'. timeout d s = Inr s'"
  by (simp add: timeout_def Let_def)

lemma now_registrar_servicio [simp]: "now (registrar_servicio cfg c x w ts s) = now s"
  by (cases c) (simp_all add: registrar_servicio_def Let_def)

lemma sorteos_registrar_servicio [simp]: "sorteos (registrar_servicio cfg c x w ts s) = sorteos s"
  by (cases c) (simp_all add: registrar_servicio_def Let_def)

text \<open>One pass of the loop body, when every draw is a duration.\<close>

lemma atender_paso_reloj:
  assumes lt: "now s < fin" and tasa: "tasa c cfg \<noteq> 0"
    and pos: "\<forall>k. 0 \<le> sorteos s k / tasa c cfg"
  shows "\<exists>n' s'. (atender_paso cfg c fin n s = Inr (Continue (n', s')) \<and> now s \<le> now s' \<and> now s' \<le> fin
                   \<or> atender_paso cfg c fin n s = Inr (Break (n', s')) \<and> now s' = fin)
                 \<and> sorteos s' = sorteos s"
proof (cases "cola c s")
  case Nil
  have "0 \<le> min 1 (fin - now s)" using lt by simp
  then obtain s1 where t: "timeout (min 1 (fin - now s)) s = Inr s1"
    using timeout_ok by blast
  have "now s1 = now s + min 1 (fin - now s)" using timeout_Inr(2)[OF t] .
  then have "now s \<le> now s1" "now s1 \<le> fin" using lt by (simp_all add: min_def)
  moreover have "atender_paso cfg c fin n s = Inr (Continue (n, s1))"
    using Nil t by (simp add: atender_paso_def)
  ultimately show ?thesis using sorteos_timeout[OF t] by blast
next
  case (Cons x resto)
  define s1 where "s1 = poner_cola c resto s"
  define ts where "ts = sorteos s1 (n_sorteos s1) / tasa c cfg"
  define s2 where "s2 = s1\<lparr>n_sorteos := n_sorteos s1 + 1\<rparr>"
  have e: "expovariate (tasa c cfg) s1 = Inr (ts, s2)"
    using tasa by (simp add: expovariate_def ts_def s2_def)
  have ts0: "0 \<le> ts" using pos by (simp add: ts_def s1_def)
  have n2: "now s2 = now s" by (simp add: s2_def s1_def)
  have so2: "sorteos s2 = sorteos s" by (simp add: s2_def s1_def)
  show ?thesis
  proof (cases "ts > fin - now s2")
    case True
    define s2' where "s2' = poner_cola c (cola c s2 @ [x]) s2"
    have "0 \<le> fin - now s2" using lt n2 by simp
    then obtain s3 where t: "timeout (fin - now s2) s2' = Inr s3"
      using timeout_ok by blast
    have "now s3 = fin" using timeout_Inr(2)[OF t] by (simp add: s2'_def)
    moreover have "sorteos s3 = sorteos s" using sorteos_timeout[OF t] so2 by (simp add: s2'_def)
    moreover have "atender_paso cfg c fin n s = Inr (Break (n, s3))"
      using Cons e True t by (simp add: atender_paso_def Let_def s1_def[symmetric] s2'_def)
    ultimately show ?thesis by blast
  next
    case False
    obtain s3 where t: "timeout ts s2 = Inr s3" using timeout_ok[OF ts0] by blast
    define s4 where "s4 = registrar_servicio cfg c x (now s1 - tiempo_llegada x) ts s3"
    have "now s3 = now s + ts" using timeout_Inr(2)[OF t] n2 by simp
    then have "now s \<le> now s4" "now s4 \<le> fin" using ts0 False n2 by (simp_all add: s4_def)
    moreover have "sorteos s4 = sorteos s" using sorteos_timeout[OF t] so2 by (simp add: s4_def)
    moreover have "atender_paso cfg c fin n s = Inr (Continue (n + 1, s4))"
      using Cons e False t by (simp add: atender_paso_def Let_def s1_def[symmetric] s4_def)
    ultimately show ?thesis by blast
  qed
qed

lemma atender_bucle_reloj:
  assumes "now s \<le> fin" and "tasa c cfg \<noteq> 0" and "\<forall>k. 0 \<le> sorteos s k / tasa c cfg"
  shows "\<exists>n' s'. atender_bucle cfg c fin n s = Inr (n', s') \<and> now s' = fin
                  \<and> sorteos s' = sorteos s"
  using assms
proof (induction cfg c fin n s rule: atender_bucle.induct)
  case (1 cfg c fin n s)
  show ?case
  proof (cases "now s < fin")
    case False
    then show ?thesis using "1.prems"(1) by (simp add: atender_bucle.simps)
  next
    case True
    from atender_paso_reloj[OF True "1.prems"(2,3), of n]
    obtain n' s' where
      alt: "atender_paso cfg c fin n s = Inr (Continue (n', s')) \<and> now s \<le> now s' \<and> now s' \<le> fin
            \<or> atender_paso cfg c fin n s = Inr (Break (n', s')) \<and> now s' = fin"
      and so: "sorteos s' = sorteos s" by blast
    from alt show ?thesis
    proof
      assume c: "atender_paso cfg c fin n s = Inr (Continue (n', s')) \<and> now s \<le> now s' \<and> now s' \<le> fin"
      have "\<exists>n'' s''. atender_bucle cfg c fin n' s' = Inr (n'', s'') \<and> now s'' = fin
              \<and> sorteos s'' = sorteos s'"
        using "1.IH"[OF True, of "Continue (n', s')" "(n', s')" n' s'] c "1.prems"(2,3) so
        by simp
      then show ?thesis using c True so by (simp add: atender_bucle.simps[of cfg c fin n s])
    next
      assume b: "atender_paso cfg c fin n s = Inr (Break (n', s')) \<and> now s' = fin"
      then show ?thesis using True so by (simp add: atender_bucle.simps[of cfg c fin n s])
    qed
  qed
qed

subsection \<open>The clock over one cycle of the fixed controller\<close>

lemma now_registrar_evento [simp]: "now (registrar_evento cfg f d i s) = now s"
  by (simp add: registrar_evento_def)

lemma sorteos_registrar_evento [simp]: "sorteos (registrar_evento cfg f d i s) = sorteos s"
  by (simp add: registrar_evento_def)

lemma now_registrar_estado_cola [simp]: "now (registrar_estado_cola cfg s) = now s"
  by (simp add: registrar_estado_cola_def)

lemma sorteos_registrar_estado_cola [simp]: "sorteos (registrar_estado_cola cfg s) = sorteos s"
  by (simp add: registrar_estado_cola_def)

lemma now_registrar_decision [simp]: "now (registrar_decision cfg t m v s) = now s"
  by (simp add: registrar_decision_def)

lemma sorteos_registrar_decision [simp]: "sorteos (registrar_decision cfg t m v s) = sorteos s"
  by (simp add: registrar_decision_def)



subsection \<open>The extension loop\<close>

lemma atender_devuelve:
  assumes "tasa c cfg \<noteq> 0" and "\<forall>k. 0 \<le> sorteos s k / tasa c cfg"
  shows "\<exists>n s'. atender cfg c d s = Inr (n, s') \<and> sorteos s' = sorteos s"
proof (cases "0 \<le> d")
  case True
  then have "now s \<le> now s + d" by simp
  from atender_bucle_reloj[OF this assms, of 0] show ?thesis
    by (auto simp: atender_def Let_def)
next
  case False
  then show ?thesis by (simp add: atender_def Let_def atender_bucle.simps)
qed

lemmas bucle_extension_induct =
  bucle_extension.raw_induct[rotated 1, consumes 1, case_names paso]

lemma bucle_extension_cota:
  assumes "bucle_extension cfg tot ext s = Some r" and "0 \<le> b_extension cfg"
  shows "case r of Inl e \<Rightarrow> True
         | Inr (t, s') \<Rightarrow> tot \<le> t \<and> (tot \<le> g_max cfg \<longrightarrow> t \<le> g_max cfg)"
  using assms
proof (induction cfg tot ext s r rule: bucle_extension_induct)
  case (paso f cfg tot ext s r)
  show ?case
  proof (cases "tot < g_max cfg \<and> \<not> obtener_espera_maxima_peatonal s > w_max cfg \<and>
                \<not> int (length (cola_vehiculos s)) < t_v cfg \<and>
                \<not> tot + b_extension cfg > g_max cfg")
    case False
    then show ?thesis using paso.hyps by (auto simp: Let_def split: if_splits)
  next
    case True
    define s2 where "s2 = registrar_evento cfg VERDE_VEHICULAR_EXTENSION (b_extension cfg)
        (InfoExtension (ext + 1) (tot + b_extension cfg))
        (registrar_decision cfg EXTENSION ALTA_DEMANDA_VEHICULAR
           (ValorExtension (ext + 1) (tot + b_extension cfg) (length (cola_vehiculos s))) s)"
    show ?thesis
    proof (cases "atender_vehiculos cfg (b_extension cfg) s2")
      case (Inl e)
      then show ?thesis using paso.hyps True by (auto simp: Let_def s2_def)
    next
      case (Inr p)
      then have "f cfg (tot + b_extension cfg) (ext + 1) (snd p) = Some r"
        using paso.hyps True by (simp add: Let_def s2_def)
      from paso.IH[OF this paso.prems] True paso.prems show ?thesis
        by (auto split: sum.splits)
    qed
  qed
qed

lemma bucle_extension_devuelve:
  assumes b: "0 < b_extension cfg" and sv: "s_v cfg \<noteq> 0"
    and pos: "\<forall>k. 0 \<le> sorteos s k / s_v cfg"
    and k: "g_max cfg < tot + real k * b_extension cfg"
  shows "\<exists>t s'. bucle_extension cfg tot ext s = Some (Inr (t, s'))"
  using pos k
proof (induction k arbitrary: tot ext s)
  case 0
  then show ?case by (subst bucle_extension.simps) simp
next
  case (Suc k)
  show ?case
  proof (cases "tot < g_max cfg \<and> \<not> obtener_espera_maxima_peatonal s > w_max cfg \<and>
                \<not> int (length (cola_vehiculos s)) < t_v cfg \<and>
                \<not> tot + b_extension cfg > g_max cfg")
    case False
    then show ?thesis by (subst bucle_extension.simps) (auto simp: Let_def)
  next
    case True
    define s2 where "s2 = registrar_evento cfg VERDE_VEHICULAR_EXTENSION (b_extension cfg)
        (InfoExtension (ext + 1) (tot + b_extension cfg))
        (registrar_decision cfg EXTENSION ALTA_DEMANDA_VEHICULAR
           (ValorExtension (ext + 1) (tot + b_extension cfg) (length (cola_vehiculos s))) s)"
    have so2: "sorteos s2 = sorteos s" by (simp add: s2_def)
    from atender_devuelve[of Vehicular cfg s2 "b_extension cfg"] sv Suc.prems(1) so2
    obtain n s3 where a: "atender_vehiculos cfg (b_extension cfg) s2 = Inr (n, s3)"
      and so3: "sorteos s3 = sorteos s" by (auto simp: atender_vehiculos_def)
    have "g_max cfg < (tot + b_extension cfg) + real k * b_extension cfg"
      using Suc.prems(2) by (simp add: algebra_simps)
    from Suc.IH[of s3 "tot + b_extension cfg" "ext + 1"] this so3 Suc.prems(1)
    obtain t s' where "bucle_extension cfg (tot + b_extension cfg) (ext + 1) s3 = Some (Inr (t, s'))"
      by auto
    then show ?thesis using True a
      by (subst bucle_extension.simps) (simp add: Let_def s2_def)
  qed
qed

subsection \<open>Pedestrian waits during a vehicle service call\<close>

lemma cola_peatones_llegar:
  "\<exists>ys. cola_peatones (llegar c a s) = cola_peatones s @ ys \<and> (\<forall>p\<in>set ys. tiempo_llegada p = a)"
  by (cases c) (simp_all add: Let_def)

lemma cola_peatones_poner_agenda [simp]: "cola_peatones (poner_agenda c xs s) = cola_peatones s"
  by (cases c) simp_all

lemma cola_peatones_entregar:
  "\<exists>ys. cola_peatones (entregar c t xs s) = cola_peatones s @ ys \<and>
        (\<forall>p\<in>set ys. tiempo_llegada p \<le> t)"
proof (induction xs arbitrary: s)
  case Nil
  then show ?case by simp
next
  case (Cons a xs)
  show ?case
  proof (cases "a \<le> t")
    case False
    then show ?thesis by simp
  next
    case True
    obtain ys where 1: "cola_peatones (llegar c a s) = cola_peatones s @ ys"
      and 2: "\<forall>p\<in>set ys. tiempo_llegada p = a" using cola_peatones_llegar by blast
    obtain zs where 3: "cola_peatones (entregar c t xs (llegar c a s)) = cola_peatones (llegar c a s) @ zs"
      and 4: "\<forall>p\<in>set zs. tiempo_llegada p \<le> t" using Cons.IH by blast
    have "cola_peatones (entregar c t (a # xs) s) = cola_peatones s @ (ys @ zs)"
      using True 1 3 by simp
    moreover have "\<forall>p\<in>set (ys @ zs). tiempo_llegada p \<le> t" using True 2 4 by auto
    ultimately show ?thesis by blast
  qed
qed

lemma cola_peatones_timeout:
  assumes "timeout d s = Inr s'"
  shows "\<exists>ys. cola_peatones s' = cola_peatones s @ ys \<and> (\<forall>p\<in>set ys. tiempo_llegada p \<le> now s')"
proof -
  have d: "0 \<le> d" using timeout_Inr(1)[OF assms] .
  define t where "t = now s + d"
  define s1 where "s1 = entregar Vehicular t (agenda_vehiculos s) s"
  define s2 where "s2 = entregar Peatonal t (agenda_peatones s1) s1"
  have s': "s' = s2\<lparr>now := t\<rparr>"
    using assms d by (simp add: timeout_def Let_def s1_def s2_def t_def)
  obtain ys where 1: "cola_peatones s1 = cola_peatones s @ ys" "\<forall>p\<in>set ys. tiempo_llegada p \<le> t"
    unfolding s1_def using cola_peatones_entregar by blast
  obtain zs where 2: "cola_peatones s2 = cola_peatones s1 @ zs" "\<forall>p\<in>set zs. tiempo_llegada p \<le> t"
    unfolding s2_def using cola_peatones_entregar by blast
  have "cola_peatones s' = cola_peatones s @ (ys @ zs)" using 1 2 by (simp add: s')
  moreover have "\<forall>p\<in>set (ys @ zs). tiempo_llegada p \<le> now s'" using 1 2 by (auto simp: s')
  ultimately show ?thesis by blast
qed

text \<open>The longest current wait cannot shrink while only the clock and arrivals act.\<close>

lemma espera_maxima_mono:
  assumes q: "cola_peatones s' = cola_peatones s @ ys"
    and ys: "\<forall>p\<in>set ys. tiempo_llegada p \<le> now s'"
    and t: "now s \<le> now s'"
  shows "obtener_espera_maxima_peatonal s \<le> obtener_espera_maxima_peatonal s'"
proof (cases "cola_peatones s = []")
  case True
  show ?thesis
  proof (cases "ys = []")
    case True
    with \<open>cola_peatones s = []\<close> q show ?thesis by (simp add: obtener_espera_maxima_peatonal_def)
  next
    case False
    then obtain p where p: "p \<in> set ys" by (cases ys) auto
    have "0 \<le> now s' - tiempo_llegada p" using ys p by simp
    also have "\<dots> \<le> Max (set (map (\<lambda>p. now s' - tiempo_llegada p) (cola_peatones s')))"
      using p q by (intro Max_ge) auto
    finally show ?thesis using True False q by (simp add: obtener_espera_maxima_peatonal_def)
  qed
next
  case False
  let ?A = "set (map (\<lambda>p. now s - tiempo_llegada p) (cola_peatones s))"
  have "Max ?A \<in> ?A" using False by (intro Max_in) auto
  then obtain p where p: "p \<in> set (cola_peatones s)" and m: "Max ?A = now s - tiempo_llegada p"
    by auto
  have "now s - tiempo_llegada p \<le> now s' - tiempo_llegada p" using t by simp
  also have "\<dots> \<le> Max (set (map (\<lambda>p. now s' - tiempo_llegada p) (cola_peatones s')))"
    using p q by (intro Max_ge) auto
  finally show ?thesis using False q m by (simp add: obtener_espera_maxima_peatonal_def)
qed

lemma espera_maxima_timeout:
  assumes "timeout d s = Inr s'"
  shows "obtener_espera_maxima_peatonal s \<le> obtener_espera_maxima_peatonal s'"
proof -
  obtain ys where "cola_peatones s' = cola_peatones s @ ys" "\<forall>p\<in>set ys. tiempo_llegada p \<le> now s'"
    using cola_peatones_timeout[OF assms] by blast
  moreover have "now s \<le> now s'" using timeout_Inr(1,2)[OF assms] by simp
  ultimately show ?thesis by (rule espera_maxima_mono)
qed

lemma espera_maxima_cong:
  "cola_peatones s' = cola_peatones s \<Longrightarrow> now s' = now s \<Longrightarrow>
   obtener_espera_maxima_peatonal s' = obtener_espera_maxima_peatonal s"
  by (simp add: obtener_espera_maxima_peatonal_def)

text \<open>The cases of one pass of the loop body, spelled out.\<close>

lemma atender_paso_casos:
  assumes "atender_paso cfg c fin n s = Inr r"
  shows "(cola c s = [] \<and> (\<exists>s'. timeout (min 1 (fin - now s)) s = Inr s' \<and> r = Continue (n, s')))
       \<or> (\<exists>x resto ts s3. cola c s = x # resto \<and> tasa c cfg \<noteq> 0 \<and>
             ts = sorteos s (n_sorteos s) / tasa c cfg \<and> ts > fin - now s \<and>
             timeout (fin - now s)
               (poner_cola c (resto @ [x]) ((poner_cola c resto s)\<lparr>n_sorteos := n_sorteos s + 1\<rparr>)) = Inr s3 \<and>
             r = Break (n, s3))
       \<or> (\<exists>x resto ts s3. cola c s = x # resto \<and> tasa c cfg \<noteq> 0 \<and>
             ts = sorteos s (n_sorteos s) / tasa c cfg \<and> \<not> ts > fin - now s \<and>
             timeout ts ((poner_cola c resto s)\<lparr>n_sorteos := n_sorteos s + 1\<rparr>) = Inr s3 \<and>
             r = Continue (n + 1,
                   registrar_servicio cfg c x (now s - tiempo_llegada x) ts s3))"
proof (cases "cola c s")
  case Nil
  then show ?thesis using assms
    by (cases "timeout (min 1 (fin - now s)) s") (auto simp: atender_paso_def)
next
  case (Cons x resto)
  have t: "tasa c cfg \<noteq> 0" using assms Cons
    by (auto simp: atender_paso_def Let_def expovariate_def split: if_splits)
  define ts where "ts = sorteos s (n_sorteos s) / tasa c cfg"
  define s2 where "s2 = (poner_cola c resto s)\<lparr>n_sorteos := n_sorteos s + 1\<rparr>"
  have e: "expovariate (tasa c cfg) (poner_cola c resto s) = Inr (ts, s2)"
    using t by (cases c) (simp_all add: expovariate_def ts_def s2_def)
  have n2: "now s2 = now s" by (cases c) (simp_all add: s2_def)
  have c2: "cola c s2 = resto" by (cases c) (simp_all add: s2_def)
  show ?thesis
  proof (cases "ts > fin - now s")
    case True
    then obtain s3 where "timeout (fin - now s) (poner_cola c (resto @ [x]) s2) = Inr s3"
      and "r = Break (n, s3)"
      using assms Cons e n2 c2
      by (cases "timeout (fin - now s) (poner_cola c (resto @ [x]) s2)")
         (auto simp: atender_paso_def Let_def)
    then show ?thesis using Cons t True by (auto simp: ts_def s2_def)
  next
    case False
    then obtain s3 where "timeout ts s2 = Inr s3"
      and "r = Continue (n + 1, registrar_servicio cfg c x (now s - tiempo_llegada x) ts s3)"
      using assms Cons e n2 c2
      by (cases "timeout ts s2") (auto simp: atender_paso_def Let_def)
    then show ?thesis using Cons t False by (auto simp: ts_def s2_def)
  qed
qed


lemma cola_peatones_poner_cola_vehicular [simp]:
  "cola_peatones (poner_cola Vehicular q s) = cola_peatones s"
  by simp

lemma espera_maxima_paso_vehicular:
  assumes "atender_paso cfg Vehicular fin n s = Inr r"
    and "r = Continue (n', s') \<or> r = Break (n', s')"
  shows "obtener_espera_maxima_peatonal s \<le> obtener_espera_maxima_peatonal s'"
proof -
  from atender_paso_casos[OF assms(1)]
  consider
    (vacia) s1 where "timeout (min 1 (fin - now s)) s = Inr s1" "r = Continue (n, s1)"
  | (no_cabe) x resto s3 where
      "timeout (fin - now s)
         (poner_cola Vehicular (resto @ [x]) ((poner_cola Vehicular resto s)\<lparr>n_sorteos := n_sorteos s + 1\<rparr>)) = Inr s3"
      "r = Break (n, s3)"
  | (servido) x resto ts s3 where
      "timeout ts ((poner_cola Vehicular resto s)\<lparr>n_sorteos := n_sorteos s + 1\<rparr>) = Inr s3"
      "r = Continue (n + 1,
             registrar_servicio cfg Vehicular x (now s - tiempo_llegada x) ts s3)"
    by blast
  then show ?thesis
  proof cases
    case vacia
    then show ?thesis using assms(2) espera_maxima_timeout by auto
  next
    case no_cabe
    have "obtener_espera_maxima_peatonal
            (poner_cola Vehicular (resto @ [x]) ((poner_cola Vehicular resto s)\<lparr>n_sorteos := n_sorteos s + 1\<rparr>))
          = obtener_espera_maxima_peatonal s"
      by (rule espera_maxima_cong) simp_all
    then show ?thesis using no_cabe assms(2) espera_maxima_timeout[OF no_cabe(1)] by auto
  next
    case servido
    have 1: "obtener_espera_maxima_peatonal
            ((poner_cola Vehicular resto s)\<lparr>n_sorteos := n_sorteos s + 1\<rparr>)
          = obtener_espera_maxima_peatonal s"
      by (rule espera_maxima_cong) simp_all
    have 2: "obtener_espera_maxima_peatonal
            (registrar_servicio cfg Vehicular x (now s - tiempo_llegada x) ts s3)
          = obtener_espera_maxima_peatonal s3"
      by (rule espera_maxima_cong) (simp_all add: registrar_servicio_def)
    show ?thesis using servido assms(2) espera_maxima_timeout[OF servido(1)] 1 2 by auto
  qed
qed

lemma espera_maxima_bucle_vehicular:
  assumes "atender_bucle cfg Vehicular fin n s = Inr (n', s')"
  shows "obtener_espera_maxima_peatonal s \<le> obtener_espera_maxima_peatonal s'"
  using assms
proof (induction cfg "Vehicular" fin n s rule: atender_bucle.induct)
  case (1 cfg fin n s)
  show ?case
  proof (cases "now s < fin")
    case False
    then show ?thesis using "1.prems" by (simp add: atender_bucle.simps)
  next
    case True
    then obtain r where r: "atender_paso cfg Vehicular fin n s = Inr r"
      using "1.prems" by (cases "atender_paso cfg Vehicular fin n s")
        (auto simp: atender_bucle.simps[of cfg Vehicular fin n s])
    show ?thesis
    proof (cases r)
      case (Break p)
      then have "p = (n', s')" using "1.prems" True r
        by (simp add: atender_bucle.simps[of cfg Vehicular fin n s])
      then show ?thesis using espera_maxima_paso_vehicular[OF r] Break by simp
    next
      case (Continue p)
      obtain m s1 where p: "p = (m, s1)" by (cases p)
      have b: "atender_bucle cfg Vehicular fin m s1 = Inr (n', s')"
        using "1.prems" True r Continue p
        by (simp add: atender_bucle.simps[of cfg Vehicular fin n s])
      have "obtener_espera_maxima_peatonal s \<le> obtener_espera_maxima_peatonal s1"
        using espera_maxima_paso_vehicular[OF r] Continue p by simp
      also have "\<dots> \<le> obtener_espera_maxima_peatonal s'"
        using "1.hyps"[OF True r Continue p[symmetric] b] .
      finally show ?thesis .
    qed
  qed
qed

text \<open>The counter of served agents does not steer the loop.\<close>

lemma atender_paso_contador:
  assumes "atender_paso cfg c fin n s = Inr r"
  shows "(\<forall>n' s'. r = Continue (n', s') \<longrightarrow>
            (\<exists>m'. atender_paso cfg c fin m s = Inr (Continue (m', s')))) \<and>
         (\<forall>n' s'. r = Break (n', s') \<longrightarrow>
            now s' = fin \<and> (\<exists>m'. atender_paso cfg c fin m s = Inr (Break (m', s'))))"
proof -
  from atender_paso_casos[OF assms]
  consider
    (vacia) s1 where "cola c s = []" "timeout (min 1 (fin - now s)) s = Inr s1" "r = Continue (n, s1)"
  | (no_cabe) x resto ts s3 where "cola c s = x # resto" "tasa c cfg \<noteq> 0"
      "ts = sorteos s (n_sorteos s) / tasa c cfg" "ts > fin - now s"
      "timeout (fin - now s)
         (poner_cola c (resto @ [x]) ((poner_cola c resto s)\<lparr>n_sorteos := n_sorteos s + 1\<rparr>)) = Inr s3"
      "r = Break (n, s3)"
  | (servido) x resto ts s3 where "cola c s = x # resto" "tasa c cfg \<noteq> 0"
      "ts = sorteos s (n_sorteos s) / tasa c cfg" "\<not> ts > fin - now s"
      "timeout ts ((poner_cola c resto s)\<lparr>n_sorteos := n_sorteos s + 1\<rparr>) = Inr s3"
      "r = Continue (n + 1,
             registrar_servicio cfg c x (now s - tiempo_llegada x) ts s3)"
    by blast
  then show ?thesis
  proof cases
    case vacia
    then show ?thesis by (simp add: atender_paso_def)
  next
    case no_cabe
    have "now s3 = fin" using timeout_Inr(2)[OF no_cabe(5)] by (cases c) simp_all
    moreover have "atender_paso cfg c fin m s = Inr (Break (m, s3))"
      using no_cabe by (cases c) (simp_all add: atender_paso_def expovariate_def Let_def)
    ultimately show ?thesis using no_cabe(6) by auto
  next
    case servido
    have "atender_paso cfg c fin m s = Inr (Continue (m + 1,
             registrar_servicio cfg c x (now s - tiempo_llegada x) ts s3))"
      using servido by (cases c) (simp_all add: atender_paso_def expovariate_def Let_def)
    then show ?thesis using servido(6) by auto
  qed
qed

text \<open>Every state a call passes through leads to the state in which the call returns.\<close>

lemma visita_hasta_el_final:
  assumes "visita cfg c fin s sm" and "atender_bucle cfg c fin n s = Inr (nf, sf)"
  shows "\<exists>m mf. atender_bucle cfg c fin m sm = Inr (mf, sf)"
  using assms
proof (induction rule: visita.induct)
  case visita_inicio
  then show ?case by blast
next
  case (visita_continue s1 k k' s2)
  then obtain m mf where b: "atender_bucle cfg c fin m s1 = Inr (mf, sf)" by blast
  from atender_paso_contador[OF visita_continue.hyps(3), of m]
  obtain m' where "atender_paso cfg c fin m s1 = Inr (Continue (m', s2))" by blast
  then have "atender_bucle cfg c fin m' s2 = Inr (mf, sf)"
    using b visita_continue.hyps(2) by (simp add: atender_bucle.simps[of cfg c fin m s1])
  then show ?case by blast
next
  case (visita_break s1 k k' s2)
  then obtain m mf where b: "atender_bucle cfg c fin m s1 = Inr (mf, sf)" by blast
  from atender_paso_contador[OF visita_break.hyps(3), of m]
  obtain m' where p: "atender_paso cfg c fin m s1 = Inr (Break (m', s2))" and f: "now s2 = fin"
    by blast
  have "sf = s2" using b p visita_break.hyps(2)
    by (simp add: atender_bucle.simps[of cfg c fin m s1])
  moreover have "atender_bucle cfg c fin 0 s2 = Inr (0, s2)"
    using f by (simp add: atender_bucle.simps)
  ultimately show ?case by blast
qed

subsection \<open>What a service call leaves untouched\<close>

lemma bitacora_llegar [simp]: "bitacora (llegar c a s) = bitacora s"
  by (cases c) (simp_all add: bitacora_def Let_def)

lemma bitacora_poner_agenda [simp]: "bitacora (poner_agenda c xs s) = bitacora s"
  by (cases c) (simp_all add: bitacora_def)

lemma bitacora_poner_cola [simp]: "bitacora (poner_cola c q s) = bitacora s"
  by (cases c) (simp_all add: bitacora_def)

lemma bitacora_n_sorteos [simp]: "bitacora (s\<lparr>n_sorteos := k\<rparr>) = bitacora s"
  by (simp add: bitacora_def)

lemma bitacora_entregar [simp]: "bitacora (entregar c t xs s) = bitacora s"
  by (induction xs arbitrary: s) auto

lemma bitacora_now [simp]: "bitacora (s\<lparr>now := t\<rparr>) = bitacora s"
  by (simp add: bitacora_def)

lemma bitacora_timeout: "timeout d s = Inr s' \<Longrightarrow> bitacora s' = bitacora s"
  by (auto simp: timeout_def Let_def split: if_splits)

lemma bitacora_registrar_servicio [simp]:
  "bitacora (registrar_servicio cfg c x w ts s) = bitacora s"
  by (cases c) (simp_all add: registrar_servicio_def bitacora_def Let_def)

lemma bitacora_atender_paso:
  assumes "atender_paso cfg c fin n s = Inr r" and "r = Continue (n', s') \<or> r = Break (n', s')"
  shows "bitacora s' = bitacora s"
  using atender_paso_casos[OF assms(1)] assms(2)
  by (auto dest!: bitacora_timeout)

lemma bitacora_atender_bucle:
  assumes "atender_bucle cfg c fin n s = Inr (n', s')"
  shows "bitacora s' = bitacora s"
  using assms
proof (induction cfg c fin n s rule: atender_bucle.induct)
  case (1 cfg c fin n s)
  show ?case
  proof (cases "now s < fin")
    case False
    then show ?thesis using "1.prems" by (simp add: atender_bucle.simps)
  next
    case True
    then obtain r where r: "atender_paso cfg c fin n s = Inr r"
      using "1.prems" by (cases "atender_paso cfg c fin n s")
        (auto simp: atender_bucle.simps[of cfg c fin n s])
    show ?thesis
    proof (cases r)
      case (Break p)
      then have "p = (n', s')" using "1.prems" True r
        by (simp add: atender_bucle.simps[of cfg c fin n s])
      then show ?thesis using bitacora_atender_paso[OF r] Break by simp
    next
      case (Continue p)
      obtain m s1 where p: "p = (m, s1)" by (cases p)
      have b: "atender_bucle cfg c fin m s1 = Inr (n', s')"
        using "1.prems" True r Continue p
        by (simp add: atender_bucle.simps[of cfg c fin n s])
      have "bitacora s1 = bitacora s"
        using bitacora_atender_paso[OF r] Continue p by simp
      moreover have "bitacora s' = bitacora s1"
        using "1.IH"[OF True r Continue p[symmetric] b] .
      ultimately show ?thesis by simp
    qed
  qed
qed

lemma bitacora_atender:
  "atender cfg c d s = Inr (n, s') \<Longrightarrow> bitacora s' = bitacora s"
  by (simp add: atender_def Let_def bitacora_atender_bucle)

lemma eventos_atender:
  "atender cfg c d s = Inr (n, s') \<Longrightarrow> eventos_semaforo s' = eventos_semaforo s"
  using bitacora_atender[of cfg c d s n s'] by (simp add: bitacora_def)

lemma eventos_timeout: "timeout d s = Inr s' \<Longrightarrow> eventos_semaforo s' = eventos_semaforo s"
  using bitacora_timeout[of d s s'] by (simp add: bitacora_def)

lemma eventos_registrar_decision [simp]:
  "eventos_semaforo (registrar_decision cfg t m v s) = eventos_semaforo s"
  by (simp add: registrar_decision_def)

lemma eventos_registrar_estado_cola [simp]:
  "eventos_semaforo (registrar_estado_cola cfg s) = eventos_semaforo s"
  by (simp add: registrar_estado_cola_def)

lemma eventos_peatonales_cong:
  "eventos_semaforo s' = eventos_semaforo s \<Longrightarrow> eventos_peatonales s' = eventos_peatonales s"
  by (simp add: eventos_peatonales_def)

lemma eventos_peatonales_registrar_evento:
  "f \<noteq> VERDE_PEATONAL \<Longrightarrow> f \<noteq> AMARILLO_PEATONAL \<Longrightarrow>
   eventos_peatonales (registrar_evento cfg f d i s) = eventos_peatonales s"
  by (simp add: eventos_peatonales_def registrar_evento_def)

lemma eventos_peatonales_registrar_decision [simp]:
  "eventos_peatonales (registrar_decision cfg t m v s) = eventos_peatonales s"
  by (simp add: eventos_peatonales_def)

lemma eventos_peatonales_registrar_estado_cola [simp]:
  "eventos_peatonales (registrar_estado_cola cfg s) = eventos_peatonales s"
  by (simp add: eventos_peatonales_def)

lemma eventos_peatonales_bucle_extension:
  assumes "bucle_extension cfg tot ext s = Some r"
  shows "case r of Inl e \<Rightarrow> True | Inr (t, s') \<Rightarrow> eventos_peatonales s' = eventos_peatonales s"
  using assms
proof (induction cfg tot ext s r rule: bucle_extension_induct)
  case (paso f cfg tot ext s r)
  show ?case
  proof (cases "tot < g_max cfg \<and> \<not> obtener_espera_maxima_peatonal s > w_max cfg \<and>
                \<not> int (length (cola_vehiculos s)) < t_v cfg \<and>
                \<not> tot + b_extension cfg > g_max cfg")
    case False
    then show ?thesis using paso.hyps
      by (auto simp: Let_def split: if_splits)
  next
    case True
    define s2 where "s2 = registrar_evento cfg VERDE_VEHICULAR_EXTENSION (b_extension cfg)
        (InfoExtension (ext + 1) (tot + b_extension cfg))
        (registrar_decision cfg EXTENSION ALTA_DEMANDA_VEHICULAR
           (ValorExtension (ext + 1) (tot + b_extension cfg) (length (cola_vehiculos s))) s)"
    have e2: "eventos_peatonales s2 = eventos_peatonales s"
      by (simp add: s2_def eventos_peatonales_registrar_evento)
    show ?thesis
    proof (cases "atender_vehiculos cfg (b_extension cfg) s2")
      case (Inl e)
      then show ?thesis using paso.hyps True by (auto simp: Let_def s2_def)
    next
      case (Inr p)
      then have f: "f cfg (tot + b_extension cfg) (ext + 1) (snd p) = Some r"
        using paso.hyps True by (simp add: Let_def s2_def)
      have "eventos_semaforo (snd p) = eventos_semaforo s2"
        using Inr eventos_atender[of cfg Vehicular "b_extension cfg" s2 "fst p" "snd p"]
        by (simp add: atender_vehiculos_def)
      then have "eventos_peatonales (snd p) = eventos_peatonales s2"
        by (rule eventos_peatonales_cong)
      with paso.IH[OF f] e2 show ?thesis by (auto split: sum.splits)
    qed
  qed
qed

lemma eventos_peatonales_fase_verde:
  assumes "fase_verde_vehicular_adaptativa cfg s = Some (Inr (t, s'))"
  shows "eventos_peatonales s' = eventos_peatonales s"
proof -
  define s1 where "s1 = registrar_evento cfg VERDE_VEHICULAR_INICIAL (g_min cfg)
                 (InfoExtension 0 (g_min cfg)) s"
  have e1: "eventos_peatonales s1 = eventos_peatonales s"
    by (simp add: s1_def eventos_peatonales_registrar_evento)
  from assms obtain p where a: "atender_vehiculos cfg (g_min cfg) s1 = Inr p"
    and b: "bucle_extension cfg (g_min cfg) 0 (snd p) = Some (Inr (t, s'))"
    by (auto simp: fase_verde_vehicular_adaptativa_def Let_def s1_def split: sum.splits)
  have "eventos_semaforo (snd p) = eventos_semaforo s1"
    using a eventos_atender[of cfg Vehicular "g_min cfg" s1 "fst p" "snd p"]
    by (simp add: atender_vehiculos_def)
  then have "eventos_peatonales (snd p) = eventos_peatonales s1"
    by (rule eventos_peatonales_cong)
  with eventos_peatonales_bucle_extension[OF b] e1 show ?thesis by simp
qed

lemma cola_peatones_entregar_vehicular [simp]:
  "cola_peatones (entregar Vehicular t xs s) = cola_peatones s"
  by (induction xs arbitrary: s) (auto simp: Let_def)

lemma agenda_peatones_entregar_vehicular [simp]:
  "agenda_peatones (entregar Vehicular t xs s) = agenda_peatones s"
  by (induction xs arbitrary: s) (auto simp: Let_def)

lemma cola_peatones_timeout_sin_agenda:
  "timeout d s = Inr s' \<Longrightarrow> agenda_peatones s = [] \<Longrightarrow> cola_peatones s' = cola_peatones s"
  by (auto simp: timeout_def Let_def split: if_splits)

subsection \<open>Records written by one cycle of the fixed controller\<close>




lemma fase_actual_registrar_evento [simp]:
  "fase_actual (registrar_evento cfg f d i s) = fase_actual s"
  by (simp add: registrar_evento_def)

lemma marcas_fase_actual [simp]:
  "marcas_eventos (s\<lparr>fase_actual := f\<rparr>) = marcas_eventos s"
  "marcas_colas (s\<lparr>fase_actual := f\<rparr>) = marcas_colas s"
  by (simp_all add: marcas_eventos_def marcas_colas_def)

lemma marcas_ciclo_numero [simp]:
  "marcas_eventos (s\<lparr>ciclo_numero := k\<rparr>) = marcas_eventos s"
  "marcas_colas (s\<lparr>ciclo_numero := k\<rparr>) = marcas_colas s"
  by (simp_all add: marcas_eventos_def marcas_colas_def)

lemma fase_actual_llegar [simp]: "fase_actual (llegar c a s) = fase_actual s"
  by (cases c) (simp_all add: Let_def)

lemma fase_actual_poner_agenda [simp]: "fase_actual (poner_agenda c xs s) = fase_actual s"
  by (cases c) simp_all

lemma fase_actual_entregar [simp]: "fase_actual (entregar c t xs s) = fase_actual s"
  by (induction xs arbitrary: s) auto


subsection \<open>The line during a service call\<close>

lemma cola_poner_agenda [simp]: "cola c' (poner_agenda c xs s) = cola c' s"
  by (cases c; cases c') simp_all


lemma servicios_llegar [simp]: "servicios c' (llegar c a s) = servicios c' s"
  by (cases c; cases c') (simp_all add: Let_def)

lemma servicios_poner_agenda [simp]: "servicios c' (poner_agenda c xs s) = servicios c' s"
  by (cases c; cases c') simp_all

lemma servicios_poner_cola [simp]: "servicios c' (poner_cola c q s) = servicios c' s"
  by (cases c; cases c') simp_all

lemma servicios_entregar [simp]: "servicios c' (entregar c t xs s) = servicios c' s"
  by (induction xs arbitrary: s) auto

lemma servicios_now [simp]: "servicios c (s\<lparr>now := t\<rparr>) = servicios c s"
  by (cases c) simp_all


lemma cola_poner_cola [simp]: "cola c (poner_cola c q s) = q"
  by (cases c) simp_all

lemma agenda_poner_cola [simp]: "agenda c' (poner_cola c q s) = agenda c' s"
  by (cases c; cases c') simp_all

text \<open>Timeouts and arrivals leave the line as it is.\<close>

lemma contador_llegar:
  "contador c' (llegar c a s) = (if c = c' then contador c' s + 1 else contador c' s)"
  by (cases c; cases c') (simp_all add: Let_def)

lemma contador_poner_agenda [simp]: "contador c' (poner_agenda c xs s) = contador c' s"
  by (cases c; cases c') simp_all


lemma fila_now [simp]: "fila c (s\<lparr>now := t\<rparr>) = fila c s"
  by (cases c) (simp_all add: fila_def)


lemma fila_n_sorteos [simp]: "fila c (s\<lparr>n_sorteos := k\<rparr>) = fila c s"
  by (cases c) (simp_all add: fila_def)

lemma fila_registrar_servicio [simp]:
  "fila c (registrar_servicio cfg c' x w ts s) = fila c s"
  by (cases c; cases c') (simp_all add: fila_def registrar_servicio_def Let_def)











text \<open>
  A vehicle green of the adaptive controller is a call for the initial block and one call
  for each extension block.  Here vehicle 1 does not fit into the initial block and goes to
  the tail; the first extension block, in the same green, serves vehicle 2 and then
  vehicle 1.
\<close>

lemma verde_adaptativo_varias_llamadas:
  "\<exists>s'. fase_verde_vehicular_adaptativa (cfg_adaptativo_sin_warmup\<lparr>t_v := 1\<rparr>)
           estado_dos_vehiculos = Some (Inr (25, s')) \<and>
        map (\<lambda>v. (sv_id v, sv_tiempo_llegada v, sv_tiempo_inicio_servicio v))
          (servicios_vehiculos s') = [(2, 91, 120), (1, 90, 122)]"
  by (simp add: evaluar bucle_extension.simps fase_verde_vehicular_adaptativa_def
        estados_de_referencia estado_dos_vehiculos_def)

section \<open>The claims\<close>

subsection \<open>C1: the adaptive vehicle green stays within its bounds\<close>

text \<open>
  Claim C1.  With \<open>g_min \<le> g_max\<close> and a positive extension block, the cumulative
  green time that \<^verbatim>\<open>fase_verde_vehicular_adaptativa\<close> returns lies in
  \<open>[g_min, g_max]\<close>, in every cycle (from every state).  The first conjunct is the bound
  on whatever is returned; the second says that the phase does return whenever the service
  draws are durations.
\<close>

theorem verde_adaptativo_acotado:
  assumes "g_min cfg \<le> g_max cfg" and "0 < b_extension cfg"
  shows "(\<forall>t s'. fase_verde_vehicular_adaptativa cfg s = Some (Inr (t, s')) \<longrightarrow>
             g_min cfg \<le> t \<and> t \<le> g_max cfg) \<and>
         (s_v cfg \<noteq> 0 \<and> (\<forall>k. 0 \<le> sorteos s k / s_v cfg) \<longrightarrow>
             (\<exists>t s'. fase_verde_vehicular_adaptativa cfg s = Some (Inr (t, s'))))"
proof (intro conjI allI impI)
  fix t s'
  assume r: "fase_verde_vehicular_adaptativa cfg s = Some (Inr (t, s'))"
  then obtain p where "bucle_extension cfg (g_min cfg) 0 (snd p) = Some (Inr (t, s'))"
    by (auto simp: fase_verde_vehicular_adaptativa_def Let_def split: sum.splits)
  from bucle_extension_cota[OF this] assms show "g_min cfg \<le> t" "t \<le> g_max cfg" by auto
next
  assume h: "s_v cfg \<noteq> 0 \<and> (\<forall>k. 0 \<le> sorteos s k / s_v cfg)"
  define s1 where "s1 = registrar_evento cfg VERDE_VEHICULAR_INICIAL (g_min cfg)
                 (InfoExtension 0 (g_min cfg)) s"
  have so1: "sorteos s1 = sorteos s" by (simp add: s1_def)
  from atender_devuelve[of Vehicular cfg s1 "g_min cfg"] h so1
  obtain n s2 where a: "atender_vehiculos cfg (g_min cfg) s1 = Inr (n, s2)"
    and so2: "sorteos s2 = sorteos s" by (auto simp: atender_vehiculos_def)
  obtain k :: nat where "g_max cfg - g_min cfg < real k * b_extension cfg"
    using ex_less_of_nat_mult[OF assms(2)] by blast
  then have k: "g_max cfg < g_min cfg + real k * b_extension cfg" by simp
  have "\<forall>k. 0 \<le> sorteos s2 k / s_v cfg" using h so2 by simp
  from bucle_extension_devuelve[OF assms(2) _ this k, of 0] h
  obtain t s' where "bucle_extension cfg (g_min cfg) 0 s2 = Some (Inr (t, s'))" by blast
  then show "\<exists>t s'. fase_verde_vehicular_adaptativa cfg s = Some (Inr (t, s'))"
    using a by (simp add: fase_verde_vehicular_adaptativa_def Let_def s1_def)
qed

theorem verde_adaptativo_acotado_witness:
  "\<exists>t s'. fase_verde_vehicular_adaptativa cfg_adaptativo_defecto
             (entorno_inicial [2, 7] [1] (\<lambda>k. 1)) = Some (Inr (t, s')) \<and> 20 \<le> t \<and> t \<le> 60"
proof -
  let ?s = "entorno_inicial [2, 7] [1] (\<lambda>k. 1)"
  have a: "g_min cfg_adaptativo_defecto \<le> g_max cfg_adaptativo_defecto"
    and b: "0 < b_extension cfg_adaptativo_defecto"
    and c: "s_v cfg_adaptativo_defecto \<noteq> 0 \<and>
            (\<forall>k. 0 \<le> sorteos ?s k / s_v cfg_adaptativo_defecto)"
    by (simp_all add: cfg_adaptativo_defecto_def entorno_inicial_def)
  from verde_adaptativo_acotado[OF a b, of ?s] c
  obtain t s' where r: "fase_verde_vehicular_adaptativa cfg_adaptativo_defecto ?s = Some (Inr (t, s'))"
    by blast
  with verde_adaptativo_acotado[OF a b, of ?s]
  have "g_min cfg_adaptativo_defecto \<le> t \<and> t \<le> g_max cfg_adaptativo_defecto" by blast
  then have "20 \<le> t \<and> t \<le> 60" by (simp add: cfg_adaptativo_defecto_def)
  with r show ?thesis by blast
qed

subsection \<open>C4: first come, first served\<close>




subsection \<open>C5: a sustained vehicle queue with the reference configuration\<close>

text \<open>
  Claim C5 says that with \<open>g_min = 20\<close>, \<open>g_max = 60\<close>, \<open>b = 5\<close>, \<open>t_v = 5\<close>, a
  vehicle queue of at least five throughout and no excessive pedestrian wait, the green is
  extended eight times, is capped at 60, and the loop ends with a decision record of
  motive \<^verbatim>\<open>MAXIMO_ALCANZADO\<close>.  Run on such a state (no warm-up, so that every
  record is kept), the phase does return 60 at instant 160 after eight extensions; but the
  decision records are exactly the eight \<^verbatim>\<open>EXTENSION\<close> records, and none has
  the motive \<^verbatim>\<open>MAXIMO_ALCANZADO\<close>: once the total equals \<open>g_max\<close> the
  \<^verbatim>\<open>while\<close> condition ends the loop before condition 3 is looked at.
\<close>

theorem escenario_B_sin_maximo_alcanzado:
  "\<exists>s'. fase_verde_vehicular_adaptativa cfg_adaptativo_sin_warmup estado_cola_sostenida
          = Some (Inr (60, s')) \<and> now s' = 160 \<and>
        length (cola_vehiculos s') = 5 \<and>
        map de_tipo (decisiones_adaptativas s') = replicate 8 EXTENSION \<and>
        map de_motivo (decisiones_adaptativas s') = replicate 8 ALTA_DEMANDA_VEHICULAR \<and>
        MAXIMO_ALCANZADO \<notin> set (map de_motivo (decisiones_adaptativas s'))"
  by (simp add: evaluar bucle_extension.simps fase_verde_vehicular_adaptativa_def
        estados_de_referencia numeral_eq_Suc)

subsection \<open>C6: the order of the stop conditions, and the pedestrian override\<close>

text \<open>
  Claim C6.  In a pass of the extension loop (cumulative green \<open>tot\<close> below \<open>g_max\<close>)
  the stop conditions are tried in this order: (a) the longest current wait of a queued
  pedestrian exceeds \<open>w_max\<close>; (b) fewer than \<open>t_v\<close> vehicles are queued; (c) one more
  block would exceed \<open>g_max\<close>.  The first that holds ends the loop with the cumulative
  green unchanged; if none holds, a block of \<open>b\<close> is served and the loop goes on with
  \<open>tot + b\<close>.  Last conjunct: if in any state \<open>sm\<close> that a vehicle service call
  passes through some pedestrian's wait exceeds \<open>w_max\<close>, then the loop, entered in the
  state \<open>s\<close> in which that call returns, ends at once with the cumulative green it had:
  no further extension.
\<close>

theorem prioridad_de_paradas:
  "(tot < g_max cfg \<and> obtener_espera_maxima_peatonal s > w_max cfg \<longrightarrow>
      bucle_extension cfg tot ext s =
        Some (Inr (tot, registrar_decision cfg FIN_EXTENSION PRIORIDAD_PEATONAL
                (ValorPrioridad (obtener_espera_maxima_peatonal s) (w_max cfg)) s))) \<and>
   (tot < g_max cfg \<and> \<not> obtener_espera_maxima_peatonal s > w_max cfg \<and>
    int (length (cola_vehiculos s)) < t_v cfg \<longrightarrow>
      bucle_extension cfg tot ext s =
        Some (Inr (tot, registrar_decision cfg FIN_EXTENSION COLA_VEHICULAR_BAJA
                (ValorColaBaja (length (cola_vehiculos s)) (t_v cfg)) s))) \<and>
   (tot < g_max cfg \<and> \<not> obtener_espera_maxima_peatonal s > w_max cfg \<and>
    \<not> int (length (cola_vehiculos s)) < t_v cfg \<and> tot + b_extension cfg > g_max cfg \<longrightarrow>
      bucle_extension cfg tot ext s =
        Some (Inr (tot, registrar_decision cfg FIN_EXTENSION MAXIMO_ALCANZADO
                (ValorMaximo tot (g_max cfg)) s))) \<and>
   (tot < g_max cfg \<and> \<not> obtener_espera_maxima_peatonal s > w_max cfg \<and>
    \<not> int (length (cola_vehiculos s)) < t_v cfg \<and> \<not> tot + b_extension cfg > g_max cfg \<longrightarrow>
      bucle_extension cfg tot ext s =
        (case atender_vehiculos cfg (b_extension cfg)
                (registrar_evento cfg VERDE_VEHICULAR_EXTENSION (b_extension cfg)
                   (InfoExtension (ext + 1) (tot + b_extension cfg))
                   (registrar_decision cfg EXTENSION ALTA_DEMANDA_VEHICULAR
                      (ValorExtension (ext + 1) (tot + b_extension cfg)
                         (length (cola_vehiculos s))) s)) of
           Inl e \<Rightarrow> Some (Inl e)
         | Inr r \<Rightarrow> bucle_extension cfg (tot + b_extension cfg) (ext + 1) (snd r))) \<and>
   (\<forall>d s0 sm n. visita cfg Vehicular (now s0 + d) s0 sm \<and>
        obtener_espera_maxima_peatonal sm > w_max cfg \<and>
        atender_vehiculos cfg d s0 = Inr (n, s) \<longrightarrow>
        (\<exists>s'. bucle_extension cfg tot ext s = Some (Inr (tot, s'))))"
proof (intro conjI impI allI)
  fix d s0 sm n
  assume h: "visita cfg Vehicular (now s0 + d) s0 sm \<and>
        obtener_espera_maxima_peatonal sm > w_max cfg \<and>
        atender_vehiculos cfg d s0 = Inr (n, s)"
  then have a: "atender_bucle cfg Vehicular (now s0 + d) 0 s0 = Inr (n, s)"
    by (simp add: atender_vehiculos_def atender_def Let_def)
  from visita_hasta_el_final[OF _ a] h
  obtain m mf where "atender_bucle cfg Vehicular (now s0 + d) m sm = Inr (mf, s)" by blast
  from espera_maxima_bucle_vehicular[OF this] h
  have "obtener_espera_maxima_peatonal s > w_max cfg" by simp
  then show "\<exists>s'. bucle_extension cfg tot ext s = Some (Inr (tot, s'))"
    by (subst bucle_extension.simps) (simp add: Let_def)
qed ((subst bucle_extension.simps, simp add: Let_def cong: sum.case_cong)+)

theorem prioridad_de_paradas_witness:
  "bucle_extension cfg_adaptativo_sin_warmup 20 0 estado_peaton_esperando =
     Some (Inr (20, registrar_decision cfg_adaptativo_sin_warmup FIN_EXTENSION PRIORIDAD_PEATONAL
                      (ValorPrioridad 100 90) estado_peaton_esperando)) \<and>
   bucle_extension cfg_adaptativo_sin_warmup 20 0 estado_cola_baja =
     Some (Inr (20, registrar_decision cfg_adaptativo_sin_warmup FIN_EXTENSION COLA_VEHICULAR_BAJA
                      (ValorColaBaja 2 5) estado_cola_baja)) \<and>
   bucle_extension cfg_adaptativo_sin_warmup 58 0 estado_cola_sostenida =
     Some (Inr (58, registrar_decision cfg_adaptativo_sin_warmup FIN_EXTENSION MAXIMO_ALCANZADO
                      (ValorMaximo 58 60) estado_cola_sostenida)) \<and>
   bucle_extension cfg_adaptativo_sin_warmup 20 0 estado_cola_sostenida =
     (case atender_vehiculos cfg_adaptativo_sin_warmup 5
             (registrar_evento cfg_adaptativo_sin_warmup VERDE_VEHICULAR_EXTENSION 5
                (InfoExtension 1 25)
                (registrar_decision cfg_adaptativo_sin_warmup EXTENSION ALTA_DEMANDA_VEHICULAR
                   (ValorExtension 1 25 5) estado_cola_sostenida)) of
        Inl e \<Rightarrow> Some (Inl e)
      | Inr r \<Rightarrow> bucle_extension cfg_adaptativo_sin_warmup 25 1 (snd r)) \<and>
   (\<exists>n s s'. atender_vehiculos cfg_adaptativo_sin_warmup 5 estado_peaton_esperando = Inr (n, s) \<and>
      bucle_extension cfg_adaptativo_sin_warmup 25 1 s = Some (Inr (25, s')))"
proof (intro conjI)
  let ?cfg = cfg_adaptativo_sin_warmup
  have e: "obtener_espera_maxima_peatonal estado_peaton_esperando = 100"
    "obtener_espera_maxima_peatonal estado_cola_baja = 0"
    "obtener_espera_maxima_peatonal estado_cola_sostenida = 0"
    by (simp_all add: obtener_espera_maxima_peatonal_def estados_de_referencia)
  have c: "w_max ?cfg = 90" "g_max ?cfg = 60" "t_v ?cfg = 5" "b_extension ?cfg = 5"
    by (simp_all add: estados_de_referencia)
  have l: "length (cola_vehiculos estado_cola_baja) = 2"
    "length (cola_vehiculos estado_cola_sostenida) = 5"
    by (simp_all add: estados_de_referencia)
  show "bucle_extension ?cfg 20 0 estado_peaton_esperando =
     Some (Inr (20, registrar_decision ?cfg FIN_EXTENSION PRIORIDAD_PEATONAL
                      (ValorPrioridad 100 90) estado_peaton_esperando))"
    using prioridad_de_paradas[of 20 ?cfg estado_peaton_esperando 0] by (simp add: e c)
  show "bucle_extension ?cfg 20 0 estado_cola_baja =
     Some (Inr (20, registrar_decision ?cfg FIN_EXTENSION COLA_VEHICULAR_BAJA
                      (ValorColaBaja 2 5) estado_cola_baja))"
    using prioridad_de_paradas[of 20 ?cfg estado_cola_baja 0] by (simp add: e c l)
  show "bucle_extension ?cfg 58 0 estado_cola_sostenida =
     Some (Inr (58, registrar_decision ?cfg FIN_EXTENSION MAXIMO_ALCANZADO
                      (ValorMaximo 58 60) estado_cola_sostenida))"
    using prioridad_de_paradas[of 58 ?cfg estado_cola_sostenida 0] by (simp add: e c l)
  show "bucle_extension ?cfg 20 0 estado_cola_sostenida =
     (case atender_vehiculos ?cfg 5
             (registrar_evento ?cfg VERDE_VEHICULAR_EXTENSION 5 (InfoExtension 1 25)
                (registrar_decision ?cfg EXTENSION ALTA_DEMANDA_VEHICULAR
                   (ValorExtension 1 25 5) estado_cola_sostenida)) of
        Inl e \<Rightarrow> Some (Inl e)
      | Inr r \<Rightarrow> bucle_extension ?cfg 25 1 (snd r))"
  proof -
    have h: "20 < g_max ?cfg \<and> \<not> obtener_espera_maxima_peatonal estado_cola_sostenida > w_max ?cfg \<and>
       \<not> int (length (cola_vehiculos estado_cola_sostenida)) < t_v ?cfg \<and>
       \<not> 20 + b_extension ?cfg > g_max ?cfg"
      by (simp add: e c l)
    have n: "(20::real) + 5 = 25" "(0::nat) + 1 = 1" by simp_all
    from prioridad_de_paradas[of 20 ?cfg estado_cola_sostenida 0,
        THEN conjunct2, THEN conjunct2, THEN conjunct2, THEN conjunct1, THEN mp, OF h]
    show ?thesis unfolding c l n .
  qed
  have "s_v ?cfg \<noteq> 0" "\<forall>k. 0 \<le> sorteos estado_peaton_esperando k / s_v ?cfg"
    by (simp_all add: estados_de_referencia)
  then obtain n s where a: "atender_vehiculos ?cfg 5 estado_peaton_esperando = Inr (n, s)"
    using atender_devuelve[of Vehicular ?cfg estado_peaton_esperando 5]
    by (auto simp: atender_vehiculos_def)
  have v: "visita ?cfg Vehicular (now estado_peaton_esperando + 5)
             estado_peaton_esperando estado_peaton_esperando"
    by (rule visita_inicio)
  have "w_max ?cfg < obtener_espera_maxima_peatonal estado_peaton_esperando"
    by (simp add: e c)
  with v a have "visita ?cfg Vehicular (now estado_peaton_esperando + 5)
        estado_peaton_esperando estado_peaton_esperando \<and>
      w_max ?cfg < obtener_espera_maxima_peatonal estado_peaton_esperando \<and>
      atender_vehiculos ?cfg 5 estado_peaton_esperando = Inr (n, s)" by blast
  from prioridad_de_paradas[of 25 ?cfg s 1, THEN conjunct2, THEN conjunct2, THEN conjunct2,
      THEN conjunct2, rule_format, OF this]
  obtain s' where "bucle_extension ?cfg 25 1 s = Some (Inr (25, s'))" by blast
  with a show "\<exists>n s s'. atender_vehiculos ?cfg 5 estado_peaton_esperando = Inr (n, s) \<and>
      bucle_extension ?cfg 25 1 s = Some (Inr (25, s'))" by blast
qed

subsection \<open>C7: skipping the pedestrian phase\<close>

text \<open>
  Claim C7 says that whenever the pedestrian queue is empty at the decision point, no
  \<^verbatim>\<open>VERDE_PEATONAL\<close> or \<^verbatim>\<open>AMARILLO_PEATONAL\<close> record is
  emitted in that cycle and a skip record with motive \<^verbatim>\<open>SIN_PEATONES\<close> is
  emitted instead.  As stated it fails: the first criterion of
  \<^verbatim>\<open>debe_activar_fase_peatonal\<close> is \<open>cola_p \<ge> t_p\<close>, which an empty
  queue meets when the threshold is 0.  In the run below nobody ever arrives, the
  threshold is 0, and the first cycle has both pedestrian phases and no skip record.
\<close>

theorem fase_peatonal_sin_peatones:
  "\<exists>s'. ciclo_adaptativo cfg_adaptativo_umbral_cero (entorno_inicial [] [] (\<lambda>k. 1))
          = Some (Inr s') \<and>
        cola_peatones s' = [] \<and> peaton_id s' = 0 \<and>
        map ev_fase (eventos_semaforo s') =
          [VERDE_VEHICULAR_INICIAL, AMARILLO_VEHICULAR, VERDE_PEATONAL, AMARILLO_PEATONAL] \<and>
        map de_motivo (decisiones_adaptativas s') = [COLA_VEHICULAR_BAJA]"
  by (simp add: evaluar bucle_extension.simps fase_verde_vehicular_adaptativa_def
        debe_activar_fase_peatonal_def resto_ciclo_adaptativo_def ciclo_adaptativo_def
        cfg_adaptativo_umbral_cero_def estados_de_referencia)

text \<open>
  Claim C7 as amended.  With a positive threshold \<open>t_p\<close> and a non-negative
  \<open>w_max\<close>, a cycle whose pedestrian queue is empty at the decision point (state
  \<open>s3\<close>, reached from the end \<open>s4\<close> of the vehicle green by the amber timeout) adds
  no \<^verbatim>\<open>VERDE_PEATONAL\<close> or \<^verbatim>\<open>AMARILLO_PEATONAL\<close> record, and
  its last decision record is the skip record with motive \<^verbatim>\<open>SIN_PEATONES\<close>
  provided the decision point is at or after the warm-up threshold; before it no decision
  record is written.
\<close>

theorem salto_fase_peatonal:
  assumes "0 < t_p cfg" and "0 \<le> w_max cfg"
    and "fase_verde_vehicular_adaptativa cfg
           (registrar_estado_cola cfg
              (s0\<lparr>ciclo_numero := ciclo_numero s0 + 1, fase_actual := VERDE_VEHICULAR\<rparr>))
         = Some (Inr (t, s4))"
    and "timeout (amarillo cfg)
           (registrar_evento cfg AMARILLO_VEHICULAR (amarillo cfg) SinInfo
              (s4\<lparr>fase_actual := AMARILLO_VEHICULAR\<rparr>)) = Inr s3"
    and "cola_peatones s3 = []"
  shows "\<exists>s'. ciclo_adaptativo cfg s0 = Some (Inr s') \<and>
           eventos_peatonales s' = eventos_peatonales s0 \<and>
           decisiones_adaptativas s' =
             (if now s3 \<ge> warmup_time cfg
              then decisiones_adaptativas s3 @
                     [\<lparr>de_tiempo = now s3, de_ciclo = ciclo_numero s3,
                       de_tipo = SALTAR_FASE_PEATONAL, de_motivo = SIN_PEATONES,
                       de_valor = ValorSaltar 0,
                       de_cola_v = length (cola_vehiculos s3), de_cola_p = 0\<rparr>]
              else decisiones_adaptativas s3)"
proof -
  define s' where "s' = registrar_estado_cola cfg
      (registrar_decision cfg SALTAR_FASE_PEATONAL SIN_PEATONES (ValorSaltar 0) s3)"
  have d: "debe_activar_fase_peatonal cfg s3 = (False, SIN_PEATONES)"
    using assms(1,2,5)
    by (simp add: debe_activar_fase_peatonal_def obtener_espera_maxima_peatonal_def Let_def)
  have r: "resto_ciclo_adaptativo cfg s4 = Inr s'"
    using assms(4,5) d by (simp add: resto_ciclo_adaptativo_def Let_def s'_def)
  have c: "ciclo_adaptativo cfg s0 = Some (Inr s')"
    using assms(3) r by (simp add: ciclo_adaptativo_def Let_def)
  have "eventos_peatonales s' = eventos_peatonales s3"
    by (simp add: s'_def)
  also have "\<dots> = eventos_peatonales s4"
    using eventos_timeout[OF assms(4)]
    by (simp add: eventos_peatonales_def registrar_evento_def)
  also have "\<dots> = eventos_peatonales s0"
    using eventos_peatonales_fase_verde[OF assms(3)]
    by (simp add: eventos_peatonales_def)
  finally have e: "eventos_peatonales s' = eventos_peatonales s0" .
  have "decisiones_adaptativas s' =
             (if now s3 \<ge> warmup_time cfg
              then decisiones_adaptativas s3 @
                     [\<lparr>de_tiempo = now s3, de_ciclo = ciclo_numero s3,
                       de_tipo = SALTAR_FASE_PEATONAL, de_motivo = SIN_PEATONES,
                       de_valor = ValorSaltar 0,
                       de_cola_v = length (cola_vehiculos s3), de_cola_p = 0\<rparr>]
              else decisiones_adaptativas s3)"
    using assms(5) by (simp add: s'_def registrar_estado_cola_def registrar_decision_def)
  with c e show ?thesis by blast
qed

theorem salto_fase_peatonal_witness:
  "\<exists>s'. ciclo_adaptativo cfg_adaptativo_sin_warmup (entorno_inicial [] [] (\<lambda>k. 1))
          = Some (Inr s') \<and>
        eventos_peatonales s' = [] \<and>
        de_motivo (last (decisiones_adaptativas s')) = SIN_PEATONES"
proof -
  let ?cfg = cfg_adaptativo_sin_warmup
  let ?s0 = "entorno_inicial [] [] (\<lambda>k. 1)"
  have c: "0 < t_p ?cfg" "0 \<le> w_max ?cfg" "amarillo ?cfg = 3" "warmup_time ?cfg = 0"
    by (simp_all add: estados_de_referencia)
  have "\<exists>t s4. fase_verde_vehicular_adaptativa ?cfg
           (registrar_estado_cola ?cfg
              (?s0\<lparr>ciclo_numero := ciclo_numero ?s0 + 1, fase_actual := VERDE_VEHICULAR\<rparr>))
         = Some (Inr (t, s4)) \<and> now s4 = 20 \<and> cola_peatones s4 = [] \<and> agenda_peatones s4 = []"
    by (simp add: evaluar bucle_extension.simps fase_verde_vehicular_adaptativa_def
          estados_de_referencia)
  then obtain t s4 where f: "fase_verde_vehicular_adaptativa ?cfg
           (registrar_estado_cola ?cfg
              (?s0\<lparr>ciclo_numero := ciclo_numero ?s0 + 1, fase_actual := VERDE_VEHICULAR\<rparr>))
         = Some (Inr (t, s4))"
    and s4: "now s4 = 20" "cola_peatones s4 = []" "agenda_peatones s4 = []" by blast
  let ?s2 = "registrar_evento ?cfg AMARILLO_VEHICULAR (amarillo ?cfg) SinInfo
              (s4\<lparr>fase_actual := AMARILLO_VEHICULAR\<rparr>)"
  obtain s3 where t3: "timeout (amarillo ?cfg) ?s2 = Inr s3"
    using timeout_ok[of "amarillo ?cfg" ?s2] c(3) by auto
  have n3: "now s3 = 23" using timeout_Inr(2)[OF t3] s4(1) c(3) by simp
  have q3: "cola_peatones s3 = []"
    using cola_peatones_timeout_sin_agenda[OF t3] s4(2,3) by (simp add: registrar_evento_def)
  from salto_fase_peatonal[OF c(1,2) f t3 q3] n3 c(4)
  obtain s' where "ciclo_adaptativo ?cfg ?s0 = Some (Inr s')"
    and "eventos_peatonales s' = eventos_peatonales ?s0"
    and "de_motivo (last (decisiones_adaptativas s')) = SIN_PEATONES" by auto
  moreover have "eventos_peatonales ?s0 = []"
    by (simp add: eventos_peatonales_def entorno_inicial_def)
  ultimately show ?thesis by auto
qed

subsection \<open>C8: invalid configurations\<close>

text \<open>
  Claim C8 says that constructing a simulation with an invalid configuration fails at
  construction with a configuration error.  As stated it fails: no constructor checks
  anything.  Below, the generator is built with arrival rates 0 and -1 and the adaptive
  controller with \<open>g_min = 3 > g_max = 2\<close>, as the driver builds them; both
  constructions succeed, the values are stored as given, and the vehicle green then runs
  with them and returns 3, above \<open>g_max\<close>.
\<close>

theorem configuracion_invalida_aceptada:
  "\<exists>cfg s. ligar (GeneradorLlegadas_init 0 (- 1) 0 (entorno_inicial [] [] (\<lambda>k. 1)))
             (SemaforoAdaptativo_init 3 2 15 (1 / 2) 1 5 3 5 90 3 0) = Inr (cfg, s) \<and>
     lambda_v s = 0 \<and> lambda_p s = - 1 \<and> g_min cfg = 3 \<and> g_max cfg = 2 \<and>
     (\<exists>s'. fase_verde_vehicular_adaptativa cfg s = Some (Inr (3, s')))"
  by (simp add: GeneradorLlegadas_init_def SemaforoAdaptativo_init_def evaluar
        bucle_extension.simps fase_verde_vehicular_adaptativa_def entorno_inicial_def)

text \<open>
  Claim C8 as amended.  The constructors of the arrival generator and of the two
  controllers accept every value of every parameter: construction always succeeds, each
  parameter is stored unchanged (nothing is clamped), the counters start at zero, the
  record lists start empty, and the clock and the queues are left as they were.
\<close>

theorem construccion_sin_validacion:
  "(\<exists>s'. GeneradorLlegadas_init lam_v lam_p warmup s = Inr s' \<and>
      lambda_v s' = lam_v \<and> lambda_p s' = lam_p \<and> gen_warmup_time s' = warmup \<and>
      vehiculo_id s' = 0 \<and> peaton_id s' = 0 \<and>
      llegadas_vehiculos s' = [] \<and> llegadas_peatones s' = [] \<and>
      now s' = now s \<and> cola_vehiculos s' = cola_vehiculos s \<and>
      cola_peatones s' = cola_peatones s) \<and>
   (\<exists>cfg s'. SemaforoFijo_init g_v g_p sv sp am warmup s = Inr (cfg, s') \<and>
      g_v_fijo cfg = g_v \<and> g_p_fijo cfg = g_p \<and> s_v cfg = sv \<and> s_p cfg = sp \<and>
      amarillo cfg = am \<and> warmup_time cfg = warmup \<and>
      fase_actual s' = VERDE_VEHICULAR \<and> ciclo_numero s' = 0 \<and> bitacora s' = ([], [], decisiones_adaptativas s) \<and>
      servicios_vehiculos s' = [] \<and> servicios_peatones s' = [] \<and>
      now s' = now s \<and> cola_vehiculos s' = cola_vehiculos s \<and>
      cola_peatones s' = cola_peatones s) \<and>
   (\<exists>cfg s'. SemaforoAdaptativo_init gmin gmax g_p sv sp tv tp b wmax am warmup s = Inr (cfg, s') \<and>
      g_min cfg = gmin \<and> g_max cfg = gmax \<and> g_p_fijo cfg = g_p \<and> s_v cfg = sv \<and>
      s_p cfg = sp \<and> t_v cfg = tv \<and> t_p cfg = tp \<and> b_extension cfg = b \<and>
      w_max cfg = wmax \<and> amarillo cfg = am \<and> warmup_time cfg = warmup \<and>
      fase_actual s' = VERDE_VEHICULAR \<and> ciclo_numero s' = 0 \<and> bitacora s' = ([], [], []) \<and>
      servicios_vehiculos s' = [] \<and> servicios_peatones s' = [] \<and>
      now s' = now s \<and> cola_vehiculos s' = cola_vehiculos s \<and>
      cola_peatones s' = cola_peatones s)"
  by (simp add: GeneradorLlegadas_init_def SemaforoFijo_init_def SemaforoAdaptativo_init_def
        bitacora_def)

subsection \<open>C9: records at the start of the phases of the fixed controller\<close>




end
